theory Spec2Isabelle
  imports Main
begin

section \<open>Python strings\<close>

text \<open>
  A Python \<open>str\<close> is a sequence of Unicode code points; it is modelled as the list of
  their numbers. \<open>cps\<close> reads an ASCII literal of the source as such a list.
\<close>

type_synonym str = "nat list"

definition cps :: "string \<Rightarrow> str" where
  "cps s = map of_char s"

text \<open>
  \<open>str.lower()\<close> and \<open>str.upper()\<close> are the interpreter's: each code point is replaced by
  its full case mapping in the Unicode Character Database, one or more code points, except
  that \<open>lower\<close> turns U+03A3 into U+03C2 in final position (after a cased letter and not
  before one, case-ignorable code points skipped) and into U+03C3 elsewhere. The tables are
  those of Unicode 14.0.0, the version of CPython 3.11; a code point that a table does not
  list is left as it is.

  A table of single mappings lists runs \<open>(first, last, step, target)\<close>, ordered by \<open>first\<close>:
  the code points \<open>first\<close>, \<open>first + step\<close>, ... up to \<open>last\<close> are mapped to \<open>target\<close>,
  \<open>target + step\<close>, ... in turn.
\<close>

fun range_lookup :: "(nat \<times> nat \<times> nat \<times> nat) list \<Rightarrow> nat \<Rightarrow> nat option" where
  "range_lookup [] c = None"
| "range_lookup ((lo, hi, step, t) # rs) c =
     (if c < lo then None
      else if c \<le> hi \<and> (c - lo) mod step = 0 then Some (t + (c - lo))
      else range_lookup rs c)"

text \<open>The mappings to more than one code point, ordered by the code point mapped.\<close>

fun special_lookup :: "(nat \<times> nat list) list \<Rightarrow> nat \<Rightarrow> nat list option" where
  "special_lookup [] c = None"
| "special_lookup ((k, v) # rs) c =
     (if c < k then None else if c = k then Some v else special_lookup rs c)"

text \<open>A set of code points as its runs \<open>(first, last)\<close>, in order.\<close>

fun in_ranges :: "(nat \<times> nat) list \<Rightarrow> nat \<Rightarrow> bool" where
  "in_ranges [] c = False"
| "in_ranges ((lo, hi) # rs) c =
     (if c < lo then False else if c \<le> hi then True else in_ranges rs c)"

definition lower_table :: "(nat \<times> nat \<times> nat \<times> nat) list" where
  "lower_table =
     [(65, 90, 1, 97), (192, 214, 1, 224), (216, 222, 1, 248), (256, 302, 2, 257),
      (306, 310, 2, 307), (313, 327, 2, 314), (330, 374, 2, 331), (376, 376, 1, 255),
      (377, 381, 2, 378), (385, 385, 1, 595), (386, 388, 2, 387), (390, 390, 1, 596),
      (391, 391, 1, 392), (393, 394, 1, 598), (395, 395, 1, 396), (398, 398, 1, 477),
      (399, 399, 1, 601), (400, 400, 1, 603), (401, 401, 1, 402), (403, 403, 1, 608),
      (404, 404, 1, 611), (406, 406, 1, 617), (407, 407, 1, 616), (408, 408, 1, 409),
      (412, 412, 1, 623), (413, 413, 1, 626), (415, 415, 1, 629), (416, 420, 2, 417),
      (422, 422, 1, 640), (423, 423, 1, 424), (425, 425, 1, 643), (428, 428, 1, 429),
      (430, 430, 1, 648), (431, 431, 1, 432), (433, 434, 1, 650), (435, 437, 2, 436),
      (439, 439, 1, 658), (440, 440, 1, 441), (444, 444, 1, 445), (452, 452, 1, 454),
      (453, 453, 1, 454), (455, 455, 1, 457), (456, 456, 1, 457), (458, 458, 1, 460),
      (459, 475, 2, 460), (478, 494, 2, 479), (497, 497, 1, 499), (498, 500, 2, 499),
      (502, 502, 1, 405), (503, 503, 1, 447), (504, 542, 2, 505), (544, 544, 1, 414),
      (546, 562, 2, 547), (570, 570, 1, 11365), (571, 571, 1, 572), (573, 573, 1, 410),
      (574, 574, 1, 11366), (577, 577, 1, 578), (579, 579, 1, 384), (580, 580, 1, 649),
      (581, 581, 1, 652), (582, 590, 2, 583), (880, 882, 2, 881), (886, 886, 1, 887),
      (895, 895, 1, 1011), (902, 902, 1, 940), (904, 906, 1, 941), (908, 908, 1, 972),
      (910, 911, 1, 973), (913, 929, 1, 945), (931, 939, 1, 963), (975, 975, 1, 983),
      (984, 1006, 2, 985), (1012, 1012, 1, 952), (1015, 1015, 1, 1016), (1017, 1017, 1, 1010),
      (1018, 1018, 1, 1019), (1021, 1023, 1, 891), (1024, 1039, 1, 1104), (1040, 1071, 1, 1072),
      (1120, 1152, 2, 1121), (1162, 1214, 2, 1163), (1216, 1216, 1, 1231), (1217, 1229, 2, 1218),
      (1232, 1326, 2, 1233), (1329, 1366, 1, 1377), (4256, 4293, 1, 11520),
      (4295, 4295, 1, 11559), (4301, 4301, 1, 11565), (5024, 5103, 1, 43888),
      (5104, 5109, 1, 5112), (7312, 7354, 1, 4304), (7357, 7359, 1, 4349), (7680, 7828, 2, 7681),
      (7838, 7838, 1, 223), (7840, 7934, 2, 7841), (7944, 7951, 1, 7936), (7960, 7965, 1, 7952),
      (7976, 7983, 1, 7968), (7992, 7999, 1, 7984), (8008, 8013, 1, 8000), (8025, 8031, 2, 8017),
      (8040, 8047, 1, 8032), (8072, 8079, 1, 8064), (8088, 8095, 1, 8080), (8104, 8111, 1, 8096),
      (8120, 8121, 1, 8112), (8122, 8123, 1, 8048), (8124, 8124, 1, 8115), (8136, 8139, 1, 8050),
      (8140, 8140, 1, 8131), (8152, 8153, 1, 8144), (8154, 8155, 1, 8054), (8168, 8169, 1, 8160),
      (8170, 8171, 1, 8058), (8172, 8172, 1, 8165), (8184, 8185, 1, 8056), (8186, 8187, 1, 8060),
      (8188, 8188, 1, 8179), (8486, 8486, 1, 969), (8490, 8490, 1, 107), (8491, 8491, 1, 229),
      (8498, 8498, 1, 8526), (8544, 8559, 1, 8560), (8579, 8579, 1, 8580), (9398, 9423, 1, 9424),
      (11264, 11311, 1, 11312), (11360, 11360, 1, 11361), (11362, 11362, 1, 619),
      (11363, 11363, 1, 7549), (11364, 11364, 1, 637), (11367, 11371, 2, 11368),
      (11373, 11373, 1, 593), (11374, 11374, 1, 625), (11375, 11375, 1, 592),
      (11376, 11376, 1, 594), (11378, 11378, 1, 11379), (11381, 11381, 1, 11382),
      (11390, 11391, 1, 575), (11392, 11490, 2, 11393), (11499, 11501, 2, 11500),
      (11506, 11506, 1, 11507), (42560, 42604, 2, 42561), (42624, 42650, 2, 42625),
      (42786, 42798, 2, 42787), (42802, 42862, 2, 42803), (42873, 42875, 2, 42874),
      (42877, 42877, 1, 7545), (42878, 42886, 2, 42879), (42891, 42891, 1, 42892),
      (42893, 42893, 1, 613), (42896, 42898, 2, 42897), (42902, 42920, 2, 42903),
      (42922, 42922, 1, 614), (42923, 42923, 1, 604), (42924, 42924, 1, 609),
      (42925, 42925, 1, 620), (42926, 42926, 1, 618), (42928, 42928, 1, 670),
      (42929, 42929, 1, 647), (42930, 42930, 1, 669), (42931, 42931, 1, 43859),
      (42932, 42946, 2, 42933), (42948, 42948, 1, 42900), (42949, 42949, 1, 642),
      (42950, 42950, 1, 7566), (42951, 42953, 2, 42952), (42960, 42960, 1, 42961),
      (42966, 42968, 2, 42967), (42997, 42997, 1, 42998), (65313, 65338, 1, 65345),
      (66560, 66599, 1, 66600), (66736, 66771, 1, 66776), (66928, 66964, 2, 66967),
      (66929, 66937, 2, 66968), (66941, 66953, 2, 66980), (66957, 66961, 2, 66996),
      (66965, 66965, 1, 67004), (68736, 68786, 1, 68800), (71840, 71871, 1, 71872),
      (93760, 93791, 1, 93792), (125184, 125217, 1, 125218)]"

definition lower_special :: "(nat \<times> nat list) list" where
  "lower_special = [(304, [105, 775])]"

definition upper_table :: "(nat \<times> nat \<times> nat \<times> nat) list" where
  "upper_table =
     [(97, 122, 1, 65), (181, 181, 1, 924), (224, 246, 1, 192), (248, 254, 1, 216),
      (255, 255, 1, 376), (257, 303, 2, 256), (305, 305, 1, 73), (307, 311, 2, 306),
      (314, 328, 2, 313), (331, 375, 2, 330), (378, 382, 2, 377), (383, 383, 1, 83),
      (384, 384, 1, 579), (387, 389, 2, 386), (392, 392, 1, 391), (396, 396, 1, 395),
      (402, 402, 1, 401), (405, 405, 1, 502), (409, 409, 1, 408), (410, 410, 1, 573),
      (414, 414, 1, 544), (417, 421, 2, 416), (424, 424, 1, 423), (429, 429, 1, 428),
      (432, 432, 1, 431), (436, 438, 2, 435), (441, 441, 1, 440), (445, 445, 1, 444),
      (447, 447, 1, 503), (453, 453, 1, 452), (454, 454, 1, 452), (456, 456, 1, 455),
      (457, 457, 1, 455), (459, 459, 1, 458), (460, 460, 1, 458), (462, 476, 2, 461),
      (477, 477, 1, 398), (479, 495, 2, 478), (498, 498, 1, 497), (499, 499, 1, 497),
      (501, 501, 1, 500), (505, 543, 2, 504), (547, 563, 2, 546), (572, 572, 1, 571),
      (575, 576, 1, 11390), (578, 578, 1, 577), (583, 591, 2, 582), (592, 592, 1, 11375),
      (593, 593, 1, 11373), (594, 594, 1, 11376), (595, 595, 1, 385), (596, 596, 1, 390),
      (598, 599, 1, 393), (601, 601, 1, 399), (603, 603, 1, 400), (604, 604, 1, 42923),
      (608, 608, 1, 403), (609, 609, 1, 42924), (611, 611, 1, 404), (613, 613, 1, 42893),
      (614, 614, 1, 42922), (616, 616, 1, 407), (617, 617, 1, 406), (618, 618, 1, 42926),
      (619, 619, 1, 11362), (620, 620, 1, 42925), (623, 623, 1, 412), (625, 625, 1, 11374),
      (626, 626, 1, 413), (629, 629, 1, 415), (637, 637, 1, 11364), (640, 640, 1, 422),
      (642, 642, 1, 42949), (643, 643, 1, 425), (647, 647, 1, 42929), (648, 648, 1, 430),
      (649, 649, 1, 580), (650, 651, 1, 433), (652, 652, 1, 581), (658, 658, 1, 439),
      (669, 669, 1, 42930), (670, 670, 1, 42928), (837, 837, 1, 921), (881, 883, 2, 880),
      (887, 887, 1, 886), (891, 893, 1, 1021), (940, 940, 1, 902), (941, 943, 1, 904),
      (945, 961, 1, 913), (962, 962, 1, 931), (963, 971, 1, 931), (972, 972, 1, 908),
      (973, 974, 1, 910), (976, 976, 1, 914), (977, 977, 1, 920), (981, 981, 1, 934),
      (982, 982, 1, 928), (983, 983, 1, 975), (985, 1007, 2, 984), (1008, 1008, 1, 922),
      (1009, 1009, 1, 929), (1010, 1010, 1, 1017), (1011, 1011, 1, 895), (1013, 1013, 1, 917),
      (1016, 1016, 1, 1015), (1019, 1019, 1, 1018), (1072, 1103, 1, 1040), (1104, 1119, 1, 1024),
      (1121, 1153, 2, 1120), (1163, 1215, 2, 1162), (1218, 1230, 2, 1217), (1231, 1231, 1, 1216),
      (1233, 1327, 2, 1232), (1377, 1414, 1, 1329), (4304, 4346, 1, 7312), (4349, 4351, 1, 7357),
      (5112, 5117, 1, 5104), (7296, 7296, 1, 1042), (7297, 7297, 1, 1044), (7298, 7298, 1, 1054),
      (7299, 7300, 1, 1057), (7301, 7301, 1, 1058), (7302, 7302, 1, 1066), (7303, 7303, 1, 1122),
      (7304, 7304, 1, 42570), (7545, 7545, 1, 42877), (7549, 7549, 1, 11363),
      (7566, 7566, 1, 42950), (7681, 7829, 2, 7680), (7835, 7835, 1, 7776),
      (7841, 7935, 2, 7840), (7936, 7943, 1, 7944), (7952, 7957, 1, 7960), (7968, 7975, 1, 7976),
      (7984, 7991, 1, 7992), (8000, 8005, 1, 8008), (8017, 8023, 2, 8025), (8032, 8039, 1, 8040),
      (8048, 8049, 1, 8122), (8050, 8053, 1, 8136), (8054, 8055, 1, 8154), (8056, 8057, 1, 8184),
      (8058, 8059, 1, 8170), (8060, 8061, 1, 8186), (8112, 8113, 1, 8120), (8126, 8126, 1, 921),
      (8144, 8145, 1, 8152), (8160, 8161, 1, 8168), (8165, 8165, 1, 8172), (8526, 8526, 1, 8498),
      (8560, 8575, 1, 8544), (8580, 8580, 1, 8579), (9424, 9449, 1, 9398),
      (11312, 11359, 1, 11264), (11361, 11361, 1, 11360), (11365, 11365, 1, 570),
      (11366, 11366, 1, 574), (11368, 11372, 2, 11367), (11379, 11379, 1, 11378),
      (11382, 11382, 1, 11381), (11393, 11491, 2, 11392), (11500, 11502, 2, 11499),
      (11507, 11507, 1, 11506), (11520, 11557, 1, 4256), (11559, 11559, 1, 4295),
      (11565, 11565, 1, 4301), (42561, 42605, 2, 42560), (42625, 42651, 2, 42624),
      (42787, 42799, 2, 42786), (42803, 42863, 2, 42802), (42874, 42876, 2, 42873),
      (42879, 42887, 2, 42878), (42892, 42892, 1, 42891), (42897, 42899, 2, 42896),
      (42900, 42900, 1, 42948), (42903, 42921, 2, 42902), (42933, 42947, 2, 42932),
      (42952, 42954, 2, 42951), (42961, 42961, 1, 42960), (42967, 42969, 2, 42966),
      (42998, 42998, 1, 42997), (43859, 43859, 1, 42931), (43888, 43967, 1, 5024),
      (65345, 65370, 1, 65313), (66600, 66639, 1, 66560), (66776, 66811, 1, 66736),
      (66967, 67003, 2, 66928), (66968, 66976, 2, 66929), (66980, 66992, 2, 66941),
      (66996, 67000, 2, 66957), (67004, 67004, 1, 66965), (68800, 68850, 1, 68736),
      (71872, 71903, 1, 71840), (93792, 93823, 1, 93760), (125218, 125251, 1, 125184)]"

definition upper_special :: "(nat \<times> nat list) list" where
  "upper_special =
     [(223, [83, 83]), (329, [700, 78]), (496, [74, 780]), (912, [921, 776, 769]),
      (944, [933, 776, 769]), (1415, [1333, 1362]), (7830, [72, 817]), (7831, [84, 776]),
      (7832, [87, 778]), (7833, [89, 778]), (7834, [65, 702]), (8016, [933, 787]),
      (8018, [933, 787, 768]), (8020, [933, 787, 769]), (8022, [933, 787, 834]),
      (8064, [7944, 921]), (8065, [7945, 921]), (8066, [7946, 921]), (8067, [7947, 921]),
      (8068, [7948, 921]), (8069, [7949, 921]), (8070, [7950, 921]), (8071, [7951, 921]),
      (8072, [7944, 921]), (8073, [7945, 921]), (8074, [7946, 921]), (8075, [7947, 921]),
      (8076, [7948, 921]), (8077, [7949, 921]), (8078, [7950, 921]), (8079, [7951, 921]),
      (8080, [7976, 921]), (8081, [7977, 921]), (8082, [7978, 921]), (8083, [7979, 921]),
      (8084, [7980, 921]), (8085, [7981, 921]), (8086, [7982, 921]), (8087, [7983, 921]),
      (8088, [7976, 921]), (8089, [7977, 921]), (8090, [7978, 921]), (8091, [7979, 921]),
      (8092, [7980, 921]), (8093, [7981, 921]), (8094, [7982, 921]), (8095, [7983, 921]),
      (8096, [8040, 921]), (8097, [8041, 921]), (8098, [8042, 921]), (8099, [8043, 921]),
      (8100, [8044, 921]), (8101, [8045, 921]), (8102, [8046, 921]), (8103, [8047, 921]),
      (8104, [8040, 921]), (8105, [8041, 921]), (8106, [8042, 921]), (8107, [8043, 921]),
      (8108, [8044, 921]), (8109, [8045, 921]), (8110, [8046, 921]), (8111, [8047, 921]),
      (8114, [8122, 921]), (8115, [913, 921]), (8116, [902, 921]), (8118, [913, 834]),
      (8119, [913, 834, 921]), (8124, [913, 921]), (8130, [8138, 921]), (8131, [919, 921]),
      (8132, [905, 921]), (8134, [919, 834]), (8135, [919, 834, 921]), (8140, [919, 921]),
      (8146, [921, 776, 768]), (8147, [921, 776, 769]), (8150, [921, 834]),
      (8151, [921, 776, 834]), (8162, [933, 776, 768]), (8163, [933, 776, 769]),
      (8164, [929, 787]), (8166, [933, 834]), (8167, [933, 776, 834]), (8178, [8186, 921]),
      (8179, [937, 921]), (8180, [911, 921]), (8182, [937, 834]), (8183, [937, 834, 921]),
      (8188, [937, 921]), (64256, [70, 70]), (64257, [70, 73]), (64258, [70, 76]),
      (64259, [70, 70, 73]), (64260, [70, 70, 76]), (64261, [83, 84]), (64262, [83, 84]),
      (64275, [1348, 1350]), (64276, [1348, 1333]), (64277, [1348, 1339]), (64278, [1358, 1350]),
      (64279, [1348, 1341])]"

text \<open>The code points with the property Cased, and those with the property Case_Ignorable.\<close>

definition cased_ranges :: "(nat \<times> nat) list" where
  "cased_ranges =
     [(65, 90), (97, 122), (170, 170), (181, 181), (186, 186), (192, 214), (216, 246),
      (248, 442), (444, 447), (452, 659), (661, 696), (704, 705), (736, 740), (837, 837),
      (880, 883), (886, 887), (890, 893), (895, 895), (902, 902), (904, 906), (908, 908),
      (910, 929), (931, 1013), (1015, 1153), (1162, 1327), (1329, 1366), (1376, 1416),
      (4256, 4293), (4295, 4295), (4301, 4301), (4304, 4346), (4349, 4351), (5024, 5109),
      (5112, 5117), (7296, 7304), (7312, 7354), (7357, 7359), (7424, 7615), (7680, 7957),
      (7960, 7965), (7968, 8005), (8008, 8013), (8016, 8023), (8025, 8025), (8027, 8027),
      (8029, 8029), (8031, 8061), (8064, 8116), (8118, 8124), (8126, 8126), (8130, 8132),
      (8134, 8140), (8144, 8147), (8150, 8155), (8160, 8172), (8178, 8180), (8182, 8188),
      (8305, 8305), (8319, 8319), (8336, 8348), (8450, 8450), (8455, 8455), (8458, 8467),
      (8469, 8469), (8473, 8477), (8484, 8484), (8486, 8486), (8488, 8488), (8490, 8493),
      (8495, 8500), (8505, 8505), (8508, 8511), (8517, 8521), (8526, 8526), (8544, 8575),
      (8579, 8580), (9398, 9449), (11264, 11492), (11499, 11502), (11506, 11507), (11520, 11557),
      (11559, 11559), (11565, 11565), (42560, 42605), (42624, 42653), (42786, 42887),
      (42891, 42894), (42896, 42954), (42960, 42961), (42963, 42963), (42965, 42969),
      (42997, 42998), (43000, 43002), (43824, 43866), (43868, 43880), (43888, 43967),
      (64256, 64262), (64275, 64279), (65313, 65338), (65345, 65370), (66560, 66639),
      (66736, 66771), (66776, 66811), (66928, 66938), (66940, 66954), (66956, 66962),
      (66964, 66965), (66967, 66977), (66979, 66993), (66995, 67001), (67003, 67004),
      (67456, 67456), (67459, 67461), (67463, 67504), (67506, 67514), (68736, 68786),
      (68800, 68850), (71840, 71903), (93760, 93823), (119808, 119892), (119894, 119964),
      (119966, 119967), (119970, 119970), (119973, 119974), (119977, 119980), (119982, 119993),
      (119995, 119995), (119997, 120003), (120005, 120069), (120071, 120074), (120077, 120084),
      (120086, 120092), (120094, 120121), (120123, 120126), (120128, 120132), (120134, 120134),
      (120138, 120144), (120146, 120485), (120488, 120512), (120514, 120538), (120540, 120570),
      (120572, 120596), (120598, 120628), (120630, 120654), (120656, 120686), (120688, 120712),
      (120714, 120744), (120746, 120770), (120772, 120779), (122624, 122633), (122635, 122654),
      (125184, 125251), (127280, 127305), (127312, 127337), (127344, 127369)]"

definition case_ignorable_ranges :: "(nat \<times> nat) list" where
  "case_ignorable_ranges =
     [(39, 39), (46, 46), (58, 58), (94, 94), (96, 96), (168, 168), (173, 173), (175, 175),
      (180, 180), (183, 184), (688, 879), (884, 885), (890, 890), (900, 901), (903, 903),
      (1155, 1161), (1369, 1369), (1375, 1375), (1425, 1469), (1471, 1471), (1473, 1474),
      (1476, 1477), (1479, 1479), (1524, 1524), (1536, 1541), (1552, 1562), (1564, 1564),
      (1600, 1600), (1611, 1631), (1648, 1648), (1750, 1757), (1759, 1768), (1770, 1773),
      (1807, 1807), (1809, 1809), (1840, 1866), (1958, 1968), (2027, 2037), (2042, 2042),
      (2045, 2045), (2070, 2093), (2137, 2139), (2184, 2184), (2192, 2193), (2200, 2207),
      (2249, 2306), (2362, 2362), (2364, 2364), (2369, 2376), (2381, 2381), (2385, 2391),
      (2402, 2403), (2417, 2417), (2433, 2433), (2492, 2492), (2497, 2500), (2509, 2509),
      (2530, 2531), (2558, 2558), (2561, 2562), (2620, 2620), (2625, 2626), (2631, 2632),
      (2635, 2637), (2641, 2641), (2672, 2673), (2677, 2677), (2689, 2690), (2748, 2748),
      (2753, 2757), (2759, 2760), (2765, 2765), (2786, 2787), (2810, 2815), (2817, 2817),
      (2876, 2876), (2879, 2879), (2881, 2884), (2893, 2893), (2901, 2902), (2914, 2915),
      (2946, 2946), (3008, 3008), (3021, 3021), (3072, 3072), (3076, 3076), (3132, 3132),
      (3134, 3136), (3142, 3144), (3146, 3149), (3157, 3158), (3170, 3171), (3201, 3201),
      (3260, 3260), (3263, 3263), (3270, 3270), (3276, 3277), (3298, 3299), (3328, 3329),
      (3387, 3388), (3393, 3396), (3405, 3405), (3426, 3427), (3457, 3457), (3530, 3530),
      (3538, 3540), (3542, 3542), (3633, 3633), (3636, 3642), (3654, 3662), (3761, 3761),
      (3764, 3772), (3782, 3782), (3784, 3789), (3864, 3865), (3893, 3893), (3895, 3895),
      (3897, 3897), (3953, 3966), (3968, 3972), (3974, 3975), (3981, 3991), (3993, 4028),
      (4038, 4038), (4141, 4144), (4146, 4151), (4153, 4154), (4157, 4158), (4184, 4185),
      (4190, 4192), (4209, 4212), (4226, 4226), (4229, 4230), (4237, 4237), (4253, 4253),
      (4348, 4348), (4957, 4959), (5906, 5908), (5938, 5939), (5970, 5971), (6002, 6003),
      (6068, 6069), (6071, 6077), (6086, 6086), (6089, 6099), (6103, 6103), (6109, 6109),
      (6155, 6159), (6211, 6211), (6277, 6278), (6313, 6313), (6432, 6434), (6439, 6440),
      (6450, 6450), (6457, 6459), (6679, 6680), (6683, 6683), (6742, 6742), (6744, 6750),
      (6752, 6752), (6754, 6754), (6757, 6764), (6771, 6780), (6783, 6783), (6823, 6823),
      (6832, 6862), (6912, 6915), (6964, 6964), (6966, 6970), (6972, 6972), (6978, 6978),
      (7019, 7027), (7040, 7041), (7074, 7077), (7080, 7081), (7083, 7085), (7142, 7142),
      (7144, 7145), (7149, 7149), (7151, 7153), (7212, 7219), (7222, 7223), (7288, 7293),
      (7376, 7378), (7380, 7392), (7394, 7400), (7405, 7405), (7412, 7412), (7416, 7417),
      (7468, 7530), (7544, 7544), (7579, 7679), (8125, 8125), (8127, 8129), (8141, 8143),
      (8157, 8159), (8173, 8175), (8189, 8190), (8203, 8207), (8216, 8217), (8228, 8228),
      (8231, 8231), (8234, 8238), (8288, 8292), (8294, 8303), (8305, 8305), (8319, 8319),
      (8336, 8348), (8400, 8432), (11388, 11389), (11503, 11505), (11631, 11631), (11647, 11647),
      (11744, 11775), (11823, 11823), (12293, 12293), (12330, 12333), (12337, 12341),
      (12347, 12347), (12441, 12446), (12540, 12542), (40981, 40981), (42232, 42237),
      (42508, 42508), (42607, 42610), (42612, 42621), (42623, 42623), (42652, 42655),
      (42736, 42737), (42752, 42785), (42864, 42864), (42888, 42890), (42994, 42996),
      (43000, 43001), (43010, 43010), (43014, 43014), (43019, 43019), (43045, 43046),
      (43052, 43052), (43204, 43205), (43232, 43249), (43263, 43263), (43302, 43309),
      (43335, 43345), (43392, 43394), (43443, 43443), (43446, 43449), (43452, 43453),
      (43471, 43471), (43493, 43494), (43561, 43566), (43569, 43570), (43573, 43574),
      (43587, 43587), (43596, 43596), (43632, 43632), (43644, 43644), (43696, 43696),
      (43698, 43700), (43703, 43704), (43710, 43711), (43713, 43713), (43741, 43741),
      (43756, 43757), (43763, 43764), (43766, 43766), (43867, 43871), (43881, 43883),
      (44005, 44005), (44008, 44008), (44013, 44013), (64286, 64286), (64434, 64450),
      (65024, 65039), (65043, 65043), (65056, 65071), (65106, 65106), (65109, 65109),
      (65279, 65279), (65287, 65287), (65294, 65294), (65306, 65306), (65342, 65342),
      (65344, 65344), (65392, 65392), (65438, 65439), (65507, 65507), (65529, 65531),
      (66045, 66045), (66272, 66272), (66422, 66426), (67456, 67461), (67463, 67504),
      (67506, 67514), (68097, 68099), (68101, 68102), (68108, 68111), (68152, 68154),
      (68159, 68159), (68325, 68326), (68900, 68903), (69291, 69292), (69446, 69456),
      (69506, 69509), (69633, 69633), (69688, 69702), (69744, 69744), (69747, 69748),
      (69759, 69761), (69811, 69814), (69817, 69818), (69821, 69821), (69826, 69826),
      (69837, 69837), (69888, 69890), (69927, 69931), (69933, 69940), (70003, 70003),
      (70016, 70017), (70070, 70078), (70089, 70092), (70095, 70095), (70191, 70193),
      (70196, 70196), (70198, 70199), (70206, 70206), (70367, 70367), (70371, 70378),
      (70400, 70401), (70459, 70460), (70464, 70464), (70502, 70508), (70512, 70516),
      (70712, 70719), (70722, 70724), (70726, 70726), (70750, 70750), (70835, 70840),
      (70842, 70842), (70847, 70848), (70850, 70851), (71090, 71093), (71100, 71101),
      (71103, 71104), (71132, 71133), (71219, 71226), (71229, 71229), (71231, 71232),
      (71339, 71339), (71341, 71341), (71344, 71349), (71351, 71351), (71453, 71455),
      (71458, 71461), (71463, 71467), (71727, 71735), (71737, 71738), (71995, 71996),
      (71998, 71998), (72003, 72003), (72148, 72151), (72154, 72155), (72160, 72160),
      (72193, 72202), (72243, 72248), (72251, 72254), (72263, 72263), (72273, 72278),
      (72281, 72283), (72330, 72342), (72344, 72345), (72752, 72758), (72760, 72765),
      (72767, 72767), (72850, 72871), (72874, 72880), (72882, 72883), (72885, 72886),
      (73009, 73014), (73018, 73018), (73020, 73021), (73023, 73029), (73031, 73031),
      (73104, 73105), (73109, 73109), (73111, 73111), (73459, 73460), (78896, 78904),
      (92912, 92916), (92976, 92982), (92992, 92995), (94031, 94031), (94095, 94111),
      (94176, 94177), (94179, 94180), (110576, 110579), (110581, 110587), (110589, 110590),
      (113821, 113822), (113824, 113827), (118528, 118573), (118576, 118598), (119143, 119145),
      (119155, 119170), (119173, 119179), (119210, 119213), (119362, 119364), (121344, 121398),
      (121403, 121452), (121461, 121461), (121476, 121476), (121499, 121503), (121505, 121519),
      (122880, 122886), (122888, 122904), (122907, 122913), (122915, 122916), (122918, 122922),
      (123184, 123197), (123566, 123566), (123628, 123631), (125136, 125142), (125252, 125259),
      (127995, 127999), (917505, 917505), (917536, 917631), (917760, 917999)]"

definition lower_cp :: "nat \<Rightarrow> nat list" where
  "lower_cp c =
     (case special_lookup lower_special c of
        Some v \<Rightarrow> v
      | None \<Rightarrow> (case range_lookup lower_table c of Some t \<Rightarrow> [t] | None \<Rightarrow> [c]))"

definition upper_cp :: "nat \<Rightarrow> nat list" where
  "upper_cp c =
     (case special_lookup upper_special c of
        Some v \<Rightarrow> v
      | None \<Rightarrow> (case range_lookup upper_table c of Some t \<Rightarrow> [t] | None \<Rightarrow> [c]))"

definition cased :: "nat \<Rightarrow> bool" where
  "cased c = in_ranges cased_ranges c"

definition case_ignorable :: "nat \<Rightarrow> bool" where
  "case_ignorable c = in_ranges case_ignorable_ranges c"

text \<open>
  Whether a U+03A3 is in final position: \<open>before\<close> holds the code points before it, the
  nearest first, and \<open>after\<close> those after it.
\<close>

definition final_sigma :: "str \<Rightarrow> str \<Rightarrow> bool" where
  "final_sigma before after =
     (case dropWhile case_ignorable before of
        [] \<Rightarrow> False
      | b # bs \<Rightarrow>
          cased b \<and>
          (case dropWhile case_ignorable after of [] \<Rightarrow> True | x # xs \<Rightarrow> \<not> cased x))"

fun lower_from :: "str \<Rightarrow> str \<Rightarrow> str" where
  "lower_from before [] = []"
| "lower_from before (c # cs) =
     (if c = 931 then [if final_sigma before cs then 962 else 963] else lower_cp c)
       @ lower_from (c # before) cs"

definition str_lower :: "str \<Rightarrow> str" where
  "str_lower s = lower_from [] s"

definition str_upper :: "str \<Rightarrow> str" where
  "str_upper s = concat (map upper_cp s)"

definition ascii :: "str \<Rightarrow> bool" where
  "ascii s = list_all (\<lambda>c. c < 128) s"

subsection \<open>Formatted values\<close>

text \<open>
  \<open>f"{n}"\<close> of an \<open>int\<close> is its decimal numeral, with a minus sign when negative;
  Python's integers are unbounded.
\<close>

function str_nat :: "nat \<Rightarrow> str" where
  "str_nat n = (if n < 10 then [48 + n] else str_nat (n div 10) @ [48 + n mod 10])"
  by pat_completeness auto
termination
  by (relation "measure id") auto

declare str_nat.simps [simp del]

definition str_int :: "int \<Rightarrow> str" where
  "str_int i = (if i < 0 then 45 # str_nat (nat (- i)) else str_nat (nat i))"

text \<open>
  A parameter without annotation (\<open>speed\<close> of \<open>diff_book_depth\<close>) is formatted by what it
  holds: an integer as above, a string as itself.
\<close>

datatype pyval = IntV int | StrV str

fun format_value :: "pyval \<Rightarrow> str" where
  "format_value (IntV i) = str_int i"
| "format_value (StrV s) = s"

section \<open>The USD-M futures websocket client\<close>

text \<open>
  \<open>UMFuturesWebsocketClient\<close> extends \<open>BinanceWebsocketClient\<close>, which owns the
  connection and \<open>live_subscribe\<close>. Each method of the subclass is modelled by the calls
  it makes on the parent class, in order, with their arguments. The first argument of
  \<open>live_subscribe\<close> is a string or a list of strings.
\<close>

datatype str_or_list = OneStr str | StrList "str list"

datatype ('cb, 'kw) call =
    SuperInit str
  | LiveSubscribe str_or_list int 'cb 'kw

definition default_stream_url :: str where
  "default_stream_url = cps ''wss://fstream.binance.com''"

text \<open>\<open>__init__(self, stream_url="wss://fstream.binance.com")\<close>; \<open>None\<close> is the omitted argument.\<close>

definition init :: "str option \<Rightarrow> ('cb, 'kw) call list" where
  "init stream_url =
     [SuperInit (case stream_url of None \<Rightarrow> default_stream_url | Some u \<Rightarrow> u)]"

definition agg_trade :: "'self \<Rightarrow> str \<Rightarrow> int \<Rightarrow> 'cb \<Rightarrow> 'kw \<Rightarrow> ('cb, 'kw) call list" where
  "agg_trade self symbol id' callback kwargs =
     [LiveSubscribe (OneStr (str_lower symbol @ cps ''@aggTrade'')) id' callback kwargs]"

definition mark_price ::
  "'self \<Rightarrow> str \<Rightarrow> int \<Rightarrow> int \<Rightarrow> 'cb \<Rightarrow> 'kw \<Rightarrow> ('cb, 'kw) call list" where
  "mark_price self symbol id' speed callback kwargs =
     [LiveSubscribe
        (OneStr (str_lower symbol @ cps ''@markPrice@'' @ str_int speed @ cps ''s''))
        id' callback kwargs]"

definition kline ::
  "'self \<Rightarrow> str \<Rightarrow> int \<Rightarrow> str \<Rightarrow> 'cb \<Rightarrow> 'kw \<Rightarrow> ('cb, 'kw) call list" where
  "kline self symbol id' interval callback kwargs =
     [LiveSubscribe (OneStr (str_lower symbol @ cps ''@kline_'' @ interval))
        id' callback kwargs]"

definition continuous_kline ::
  "'self \<Rightarrow> str \<Rightarrow> int \<Rightarrow> str \<Rightarrow> str \<Rightarrow> 'cb \<Rightarrow> 'kw \<Rightarrow> ('cb, 'kw) call list" where
  "continuous_kline self pair id' contractType interval callback kwargs =
     [LiveSubscribe
        (OneStr (str_lower pair @ cps ''_'' @ contractType @ cps ''@continuousKline_''
           @ interval))
        id' callback kwargs]"

definition mini_ticker ::
  "'self \<Rightarrow> int \<Rightarrow> 'cb \<Rightarrow> str option \<Rightarrow> 'kw \<Rightarrow> ('cb, 'kw) call list" where
  "mini_ticker self id' callback symbol kwargs =
     (case symbol of
        None \<Rightarrow> [LiveSubscribe (OneStr (cps ''!miniTicker@arr'')) id' callback kwargs]
      | Some s \<Rightarrow>
          [LiveSubscribe (OneStr (str_lower s @ cps ''@miniTicker'')) id' callback kwargs])"

definition ticker ::
  "'self \<Rightarrow> int \<Rightarrow> 'cb \<Rightarrow> str option \<Rightarrow> 'kw \<Rightarrow> ('cb, 'kw) call list" where
  "ticker self id' callback symbol kwargs =
     (case symbol of
        None \<Rightarrow> [LiveSubscribe (OneStr (cps ''!ticker@arr'')) id' callback kwargs]
      | Some s \<Rightarrow>
          [LiveSubscribe (OneStr (str_lower s @ cps ''@ticker'')) id' callback kwargs])"

definition book_ticker ::
  "'self \<Rightarrow> int \<Rightarrow> 'cb \<Rightarrow> str option \<Rightarrow> 'kw \<Rightarrow> ('cb, 'kw) call list" where
  "book_ticker self id' callback symbol kwargs =
     (case symbol of
        None \<Rightarrow> [LiveSubscribe (OneStr (cps ''!bookTicker'')) id' callback kwargs]
      | Some s \<Rightarrow>
          [LiveSubscribe (OneStr (str_lower s @ cps ''@bookTicker'')) id' callback kwargs])"

definition liquidation_order ::
  "'self \<Rightarrow> int \<Rightarrow> 'cb \<Rightarrow> str option \<Rightarrow> 'kw \<Rightarrow> ('cb, 'kw) call list" where
  "liquidation_order self id' callback symbol kwargs =
     (case symbol of
        None \<Rightarrow> [LiveSubscribe (OneStr (cps ''!forceOrder@arr'')) id' callback kwargs]
      | Some s \<Rightarrow>
          [LiveSubscribe (OneStr (str_lower s @ cps ''@forceOrder'')) id' callback kwargs])"

text \<open>\<open>isinstance(symbols, list)\<close> chooses between the comprehension and the single name.\<close>

definition partial_book_depth ::
  "'self \<Rightarrow> str_or_list \<Rightarrow> int \<Rightarrow> int \<Rightarrow> int \<Rightarrow> 'cb \<Rightarrow> 'kw \<Rightarrow> ('cb, 'kw) call list" where
  "partial_book_depth self symbols id' level speed callback kwargs =
     (let streams =
        (case symbols of
           StrList ss \<Rightarrow>
             StrList (map (\<lambda>s. str_lower s @ cps ''@depth'' @ str_int level @ cps ''@''
                                @ str_int speed @ cps ''ms'') ss)
         | OneStr s \<Rightarrow>
             OneStr (str_lower s @ cps ''@depth'' @ str_int level @ cps ''@''
                       @ str_int speed @ cps ''ms''))
      in [LiveSubscribe streams id' callback kwargs])"

definition diff_book_depth ::
  "'self \<Rightarrow> str \<Rightarrow> int \<Rightarrow> pyval \<Rightarrow> 'cb \<Rightarrow> 'kw \<Rightarrow> ('cb, 'kw) call list" where
  "diff_book_depth self symbol id' speed callback kwargs =
     [LiveSubscribe
        (OneStr (str_lower symbol @ cps ''@depth@'' @ format_value speed @ cps ''ms''))
        id' callback kwargs]"

definition composite_index ::
  "'self \<Rightarrow> str \<Rightarrow> int \<Rightarrow> 'cb \<Rightarrow> 'kw \<Rightarrow> ('cb, 'kw) call list" where
  "composite_index self symbol id' callback kwargs =
     [LiveSubscribe (OneStr (str_lower symbol @ cps ''@compositeIndex'')) id' callback kwargs]"

definition user_data :: "'self \<Rightarrow> str \<Rightarrow> int \<Rightarrow> 'cb \<Rightarrow> 'kw \<Rightarrow> ('cb, 'kw) call list" where
  "user_data self listen_key id' callback kwargs =
     [LiveSubscribe (OneStr listen_key) id' callback kwargs]"

text \<open>The callback of the example script, and its keyword arguments: none.\<close>

datatype example_callback = message_handler

datatype no_kwargs = NoKwargs

text \<open>
  Any call of a convenience method, with its arguments in the order of the signature, and
  the method it runs.
\<close>

datatype ('cb, 'kw) method_call =
    AggTrade str int 'cb 'kw
  | MarkPrice str int int 'cb 'kw
  | Kline str int str 'cb 'kw
  | ContinuousKline str int str str 'cb 'kw
  | MiniTicker int 'cb "str option" 'kw
  | Ticker int 'cb "str option" 'kw
  | BookTicker int 'cb "str option" 'kw
  | LiquidationOrder int 'cb "str option" 'kw
  | PartialBookDepth str_or_list int int int 'cb 'kw
  | DiffBookDepth str int pyval 'cb 'kw
  | CompositeIndex str int 'cb 'kw
  | UserData str int 'cb 'kw

fun dispatch :: "'self \<Rightarrow> ('cb, 'kw) method_call \<Rightarrow> ('cb, 'kw) call list" where
  "dispatch self (AggTrade s i cb kw) = agg_trade self s i cb kw"
| "dispatch self (MarkPrice s i v cb kw) = mark_price self s i v cb kw"
| "dispatch self (Kline s i iv cb kw) = kline self s i iv cb kw"
| "dispatch self (ContinuousKline p i ct iv cb kw) = continuous_kline self p i ct iv cb kw"
| "dispatch self (MiniTicker i cb s kw) = mini_ticker self i cb s kw"
| "dispatch self (Ticker i cb s kw) = ticker self i cb s kw"
| "dispatch self (BookTicker i cb s kw) = book_ticker self i cb s kw"
| "dispatch self (LiquidationOrder i cb s kw) = liquidation_order self i cb s kw"
| "dispatch self (PartialBookDepth ss i l v cb kw) = partial_book_depth self ss i l v cb kw"
| "dispatch self (DiffBookDepth s i v cb kw) = diff_book_depth self s i v cb kw"
| "dispatch self (CompositeIndex s i cb kw) = composite_index self s i cb kw"
| "dispatch self (UserData k i cb kw) = user_data self k i cb kw"

fun id_of :: "('cb, 'kw) method_call \<Rightarrow> int" where
  "id_of (AggTrade s i cb kw) = i"
| "id_of (MarkPrice s i v cb kw) = i"
| "id_of (Kline s i iv cb kw) = i"
| "id_of (ContinuousKline p i ct iv cb kw) = i"
| "id_of (MiniTicker i cb s kw) = i"
| "id_of (Ticker i cb s kw) = i"
| "id_of (BookTicker i cb s kw) = i"
| "id_of (LiquidationOrder i cb s kw) = i"
| "id_of (PartialBookDepth ss i l v cb kw) = i"
| "id_of (DiffBookDepth s i v cb kw) = i"
| "id_of (CompositeIndex s i cb kw) = i"
| "id_of (UserData k i cb kw) = i"

fun callback_of :: "('cb, 'kw) method_call \<Rightarrow> 'cb" where
  "callback_of (AggTrade s i cb kw) = cb"
| "callback_of (MarkPrice s i v cb kw) = cb"
| "callback_of (Kline s i iv cb kw) = cb"
| "callback_of (ContinuousKline p i ct iv cb kw) = cb"
| "callback_of (MiniTicker i cb s kw) = cb"
| "callback_of (Ticker i cb s kw) = cb"
| "callback_of (BookTicker i cb s kw) = cb"
| "callback_of (LiquidationOrder i cb s kw) = cb"
| "callback_of (PartialBookDepth ss i l v cb kw) = cb"
| "callback_of (DiffBookDepth s i v cb kw) = cb"
| "callback_of (CompositeIndex s i cb kw) = cb"
| "callback_of (UserData k i cb kw) = cb"

fun kwargs_of :: "('cb, 'kw) method_call \<Rightarrow> 'kw" where
  "kwargs_of (AggTrade s i cb kw) = kw"
| "kwargs_of (MarkPrice s i v cb kw) = kw"
| "kwargs_of (Kline s i iv cb kw) = kw"
| "kwargs_of (ContinuousKline p i ct iv cb kw) = kw"
| "kwargs_of (MiniTicker i cb s kw) = kw"
| "kwargs_of (Ticker i cb s kw) = kw"
| "kwargs_of (BookTicker i cb s kw) = kw"
| "kwargs_of (LiquidationOrder i cb s kw) = kw"
| "kwargs_of (PartialBookDepth ss i l v cb kw) = kw"
| "kwargs_of (DiffBookDepth s i v cb kw) = kw"
| "kwargs_of (CompositeIndex s i cb kw) = kw"
| "kwargs_of (UserData k i cb kw) = kw"

text \<open>
  What a sequence of calls does to the client, for any behaviour \<open>parent\<close> of the parent
  class: the calls applied in order.
\<close>

definition effect ::
  "('self \<Rightarrow> ('cb, 'kw) call \<Rightarrow> 'self) \<Rightarrow> 'self \<Rightarrow> ('cb, 'kw) call list \<Rightarrow> 'self" where
  "effect parent self calls = foldl parent self calls"

text \<open>The callbacks that a sequence of calls hands to \<open>live_subscribe\<close>, in order.\<close>

fun callbacks_passed :: "('cb, 'kw) call list \<Rightarrow> 'cb list" where
  "callbacks_passed [] = []"
| "callbacks_passed (SuperInit u # cs) = callbacks_passed cs"
| "callbacks_passed (LiveSubscribe st i cb kw # cs) = cb # callbacks_passed cs"

section \<open>The subscription engine\<close>

text \<open>
  The convenience methods hand their stream names to the subscription-and-connection
  engine (registry, command channel, connection supervisor). Its code is not among the
  sources; the definitions of this section follow the specification, sections 3 to 7.
  Timeouts, retries, keepalive and the dispatch of data frames depend on real time or on
  payloads and are left out: a command whose acknowledgement is lost stays unacknowledged.
\<close>

text \<open>Modelled from the spec: the states of a Subscription (section 3); the registry is absent from the sources.\<close>

datatype sub_state = Pending | Active | Unsubscribing | Removed

text \<open>
  Modelled from the spec: a Subscription (section 3) with its id, stream names, callback and
  state, and the mark of section 4.1, "marks entry to be replayed on next connect".
\<close>

record 'cb subscription =
  sub_id :: int
  streamNames :: "str list"
  callback :: 'cb
  state :: sub_state
  replay_on_connect :: bool

text \<open>Modelled from the spec: the kinds of a PendingCommand (section 3).\<close>

datatype command_kind = Subscribe | Unsubscribe

text \<open>
  Modelled from the spec: an outbound command (sections 3 and 6), \<open>{method, params, id}\<close>;
  \<open>sentAt\<close> and \<open>retryCount\<close> belong to the timeouts, which are left out.
\<close>

record command =
  cmd_id :: int
  kind :: command_kind
  streams :: "str list"

text \<open>Modelled from the spec: the states of the ConnectionSupervisor (section 4.2).\<close>

datatype supervisor_state = Disconnected | Connecting | Connected | Reconnecting | Closing

text \<open>Modelled from the spec: the errors returned to the caller (section 7).\<close>

datatype error = DuplicateSubscriptionId | UnknownSubscriptionId | ClientClosed

text \<open>
  Modelled from the spec: the state of the engine. \<open>ack_mode\<close> is the configuration of
  section 9 (whether the protocol acknowledges commands); \<open>registry\<close> holds the entries in
  the order they were added (section 4.1, "ordered sequence"); \<open>attempt\<close> is the backoff
  counter; \<open>wire\<close> is the sequence of commands sent on the live connection since it was
  established; \<open>pending\<close> holds the commands awaiting acknowledgement (section 4.3).
\<close>

record 'cb engine =
  ack_mode :: bool
  registry :: "'cb subscription list"
  supervisor :: supervisor_state
  attempt :: nat
  wire :: "command list"
  pending :: "command list"

text \<open>Modelled from the spec: a new client, \<open>Disconnected (initial)\<close> with nothing registered.\<close>

definition initial :: "bool \<Rightarrow> 'cb engine" where
  "initial acks =
     \<lparr>ack_mode = acks, registry = [], supervisor = Disconnected, attempt = 0, wire = [],
      pending = []\<rparr>"

text \<open>Modelled from the spec: "\<open>id\<close> already present and not \<open>Removed\<close>" (section 4.1).\<close>

definition present :: "int \<Rightarrow> 'cb engine \<Rightarrow> bool" where
  "present i e = list_ex (\<lambda>s. sub_id s = i \<and> state s \<noteq> Removed) (registry e)"

text \<open>
  Modelled from the spec: \<open>add(id, streams, callback)\<close> (section 4.1): "fails if \<open>id\<close>
  already present and not \<open>Removed\<close>. Side effect: inserts \<open>Pending\<close> entry; enqueues a
  Subscribe command if connected, else marks entry to be replayed on next connect." The
  entry is \<open>Active\<close> at once when the protocol has no acknowledgement (section 3). The
  result is the error, if any, and the state after the call.
\<close>

definition add :: "int \<Rightarrow> str list \<Rightarrow> 'cb \<Rightarrow> 'cb engine \<Rightarrow> error option \<times> 'cb engine" where
  "add i sts cb e =
     (if present i e then (Some DuplicateSubscriptionId, e)
      else
        let entry = \<lparr>sub_id = i, streamNames = sts, callback = cb,
                      state = (if ack_mode e then Pending else Active),
                      replay_on_connect = (supervisor e \<noteq> Connected)\<rparr>;
            cmd = \<lparr>cmd_id = i, kind = Subscribe, streams = sts\<rparr>
        in if supervisor e = Connected
           then (None, e\<lparr>registry := registry e @ [entry], wire := wire e @ [cmd],
                          pending := (if ack_mode e then pending e @ [cmd] else pending e)\<rparr>)
           else (None, e\<lparr>registry := registry e @ [entry]\<rparr>))"

text \<open>
  Modelled from the spec: \<open>remove(id)\<close> (section 4.1): "fails if \<open>id\<close> absent. If connected,
  enqueues Unsubscribe and marks \<open>Unsubscribing\<close>; on ack (or immediately if disconnected)
  transitions to \<open>Removed\<close> and the entry is purged." Without acknowledgements the
  submission counts as success (section 4.3).
\<close>

definition remove :: "int \<Rightarrow> 'cb engine \<Rightarrow> error option \<times> 'cb engine" where
  "remove i e =
     (if \<not> list_ex (\<lambda>s. sub_id s = i) (registry e) then (Some UnknownSubscriptionId, e)
      else
        let cmd = \<lparr>cmd_id = i, kind = Unsubscribe,
                    streams = concat (map streamNames
                                 (filter (\<lambda>s. sub_id s = i) (registry e)))\<rparr>
        in if supervisor e = Connected
           then (if ack_mode e
                 then (None, e\<lparr>registry :=
                                  map (\<lambda>s. if sub_id s = i then s\<lparr>state := Unsubscribing\<rparr>
                                           else s) (registry e),
                                wire := wire e @ [cmd], pending := pending e @ [cmd]\<rparr>)
                 else (None, e\<lparr>registry := filter (\<lambda>s. sub_id s \<noteq> i) (registry e),
                                wire := wire e @ [cmd]\<rparr>))
           else (None, e\<lparr>registry := filter (\<lambda>s. sub_id s \<noteq> i) (registry e)\<rparr>))"

text \<open>Modelled from the spec: \<open>snapshot()\<close>, the "ordered sequence of active Subscriptions".\<close>

definition snapshot :: "'cb engine \<Rightarrow> 'cb subscription list" where
  "snapshot e = filter (\<lambda>s. state s = Active) (registry e)"

text \<open>Modelled from the spec: a replayed command, "tagged with their original ids" (section 4.2).\<close>

definition resubscribe :: "'cb subscription \<Rightarrow> command" where
  "resubscribe s = \<lparr>cmd_id = sub_id s, kind = Subscribe, streams = streamNames s\<rparr>"

text \<open>
  Modelled from the spec: "On entering \<open>Connected\<close>: reset backoff attempt counter to 0;
  atomically replay registry \<open>snapshot()\<close> as Subscribe commands tagged with their original
  ids, before accepting new caller-issued commands" (section 4.2). The entries that \<open>add\<close>
  marked while there was no connection are subscribed right after the replay, and the
  marks are cleared.
\<close>

definition on_connected :: "'cb engine \<Rightarrow> 'cb engine" where
  "on_connected e =
     (let replay = map resubscribe (snapshot e);
          deferred = map resubscribe
            (filter (\<lambda>s. state s = Pending \<and> replay_on_connect s) (registry e))
      in e\<lparr>supervisor := Connected, attempt := 0,
            registry := map (\<lambda>s. s\<lparr>replay_on_connect := False\<rparr>) (registry e),
            wire := replay @ deferred,
            pending := (if ack_mode e then pending e @ replay @ deferred else pending e)\<rparr>)"

text \<open>
  Modelled from the spec: the acknowledgement path of the MessageRouter (section 4.4): "match
  it to a \<open>PendingCommand\<close> by identifier; on match, resolve the command and advance the
  Subscription's state": \<open>Pending\<close> to \<open>Active\<close>, or \<open>Unsubscribing\<close> to \<open>Removed\<close>, purged.
\<close>

definition ack :: "int \<Rightarrow> 'cb engine \<Rightarrow> 'cb engine" where
  "ack i e =
     (case find (\<lambda>c. cmd_id c = i) (pending e) of
        None \<Rightarrow> e
      | Some c \<Rightarrow>
          (case kind c of
             Subscribe \<Rightarrow>
               e\<lparr>pending := remove1 c (pending e),
                 registry := map (\<lambda>s. if sub_id s = i \<and> state s = Pending
                                        then s\<lparr>state := Active\<rparr> else s) (registry e)\<rparr>
           | Unsubscribe \<Rightarrow>
               e\<lparr>pending := remove1 c (pending e),
                 registry := filter (\<lambda>s. \<not> (sub_id s = i \<and> state s = Unsubscribing))
                               (registry e)\<rparr>))"

text \<open>
  Modelled from the spec: the entry point \<open>subscribe(streams, id, callback)\<close> (section 6);
  "\<open>subscribe\<close>/\<open>unsubscribe\<close> issued after stop has begun fail with a client closed
  condition" (section 5).
\<close>

definition subscribe ::
  "str list \<Rightarrow> int \<Rightarrow> 'cb \<Rightarrow> 'cb engine \<Rightarrow> error option \<times> 'cb engine" where
  "subscribe sts i cb e =
     (if supervisor e = Closing then (Some ClientClosed, e) else add i sts cb e)"

text \<open>Modelled from the spec: the entry point \<open>unsubscribe(id)\<close> (sections 5 and 6).\<close>

definition unsubscribe :: "int \<Rightarrow> 'cb engine \<Rightarrow> error option \<times> 'cb engine" where
  "unsubscribe i e =
     (if supervisor e = Closing then (Some ClientClosed, e) else remove i e)"

text \<open>
  Modelled from the spec: what can happen to the engine: the caller's \<open>start\<close>, \<open>stop\<close>,
  \<open>subscribe\<close> and \<open>unsubscribe\<close>; the end of a backoff wait; the outcome of a connection
  attempt; the loss of the live connection (an I/O error or a failed keepalive); an
  acknowledgement frame.
\<close>

datatype 'cb event =
    Start
  | RetryConnect
  | ConnectSucceeded
  | ConnectFailed
  | ConnectionLost
  | Stop
  | CallSubscribe "str list" int 'cb
  | CallUnsubscribe int
  | AckReceived int

text \<open>
  Modelled from the spec: the state machine of section 4.2, "\<open>Disconnected\<close> (initial),
  \<open>Connecting\<close>, \<open>Connected\<close>, \<open>Reconnecting\<close>, \<open>Connecting\<close>, ...; \<open>Closing\<close> reachable from
  any state on explicit stop, terminal thereafter"; the attempt counter "increments on each
  failed \<open>Connecting\<close> attempt and resets to 0 on success"; a lost connection takes what was
  sent on it with it; \<open>stop\<close> removes the entries locally (section 3).
\<close>

fun step :: "'cb event \<Rightarrow> 'cb engine \<Rightarrow> 'cb engine" where
  "step Start e = (if supervisor e = Disconnected then e\<lparr>supervisor := Connecting\<rparr> else e)"
| "step RetryConnect e =
     (if supervisor e = Reconnecting then e\<lparr>supervisor := Connecting\<rparr> else e)"
| "step ConnectSucceeded e = (if supervisor e = Connecting then on_connected e else e)"
| "step ConnectFailed e =
     (if supervisor e = Connecting
      then e\<lparr>supervisor := Reconnecting, attempt := attempt e + 1\<rparr> else e)"
| "step ConnectionLost e =
     (if supervisor e = Connected then e\<lparr>supervisor := Reconnecting, wire := []\<rparr> else e)"
| "step Stop e = e\<lparr>supervisor := Closing, registry := [], wire := [], pending := []\<rparr>"
| "step (CallSubscribe sts i cb) e = snd (subscribe sts i cb e)"
| "step (CallUnsubscribe i) e = snd (unsubscribe i e)"
| "step (AckReceived i) e = (if supervisor e = Connected then ack i e else e)"

text \<open>Modelled from the spec: a history of the engine, its events applied in order.\<close>

fun run :: "'cb event list \<Rightarrow> 'cb engine \<Rightarrow> 'cb engine" where
  "run [] e = e"
| "run (ev # evs) e = run evs (step ev e)"

text \<open>
  Modelled from the spec: "a connection drop followed by successful reconnection" (section
  8) with no caller action: the connection is lost, \<open>n\<close> attempts fail, each after a backoff
  wait, and the next one succeeds.
\<close>

definition outage :: "nat \<Rightarrow> 'cb event list" where
  "outage n =
     ConnectionLost # concat (replicate n [RetryConnect, ConnectFailed])
       @ [RetryConnect, ConnectSucceeded]"

text \<open>Modelled from the spec: the state in which the successful attempt of an outage finds the engine.\<close>

definition awaiting_connect :: "nat \<Rightarrow> 'cb engine \<Rightarrow> 'cb engine" where
  "awaiting_connect n e = e\<lparr>supervisor := Connecting, attempt := attempt e + n, wire := []\<rparr>"

text \<open>Modelled from the spec: the events that leave the live connection in place.\<close>

fun keeps_connection :: "'cb event \<Rightarrow> bool" where
  "keeps_connection ConnectionLost = False"
| "keeps_connection Stop = False"
| "keeps_connection ev = True"

text \<open>
  Modelled from the spec: the server's view of a connection (section 6): a SUBSCRIBE adds
  the subscription with its id and streams, an UNSUBSCRIBE takes the one of that id away.
\<close>

fun server_apply :: "(int \<times> str list) set \<Rightarrow> command \<Rightarrow> (int \<times> str list) set" where
  "server_apply S c =
     (case kind c of
        Subscribe \<Rightarrow> insert (cmd_id c, streams c) S
      | Unsubscribe \<Rightarrow> Set.filter (\<lambda>p. fst p \<noteq> cmd_id c) S)"

text \<open>Modelled from the spec: the server-visible subscription set of the live connection.\<close>

definition server_view :: "command list \<Rightarrow> (int \<times> str list) set" where
  "server_view w = foldl server_apply {} w"

text \<open>Modelled from the spec: the registry's active set, each entry with its id and streams.\<close>

definition active_set :: "'cb engine \<Rightarrow> (int \<times> str list) set" where
  "active_set e = set (map (\<lambda>s. (sub_id s, streamNames s)) (snapshot e))"

text \<open>
  Modelled from the spec: the invariants of section 3: no entry stays in the registry once
  \<open>Removed\<close>, and ids are unique among the entries.
\<close>

definition registry_ok :: "'cb subscription list \<Rightarrow> bool" where
  "registry_ok xs = (list_all (\<lambda>s. state s \<noteq> Removed) xs \<and> distinct (map sub_id xs))"

text \<open>Modelled from the spec: no entry is waiting for the next connect.\<close>

definition unmarked :: "'cb subscription list \<Rightarrow> bool" where
  "unmarked xs = list_all (\<lambda>s. \<not> replay_on_connect s) xs"

text \<open>
  Modelled from the spec: what holds of every state the engine reaches: the registry's
  invariants; while connected no entry is marked; a closed client has no entries.
\<close>

definition engine_inv :: "'cb engine \<Rightarrow> bool" where
  "engine_inv e =
     (registry_ok (registry e)
      \<and> (supervisor e = Connected \<longrightarrow> unmarked (registry e))
      \<and> (supervisor e = Closing \<longrightarrow> registry e = []))"

section \<open>Auxiliary facts\<close>

lemma lower_cp_ascii: "c < 128 \<Longrightarrow> lower_cp c = [if 65 \<le> c \<and> c \<le> 90 then c + 32 else c]"
  by (simp add: lower_cp_def lower_special_def lower_table_def)

lemma upper_cp_ascii: "c < 128 \<Longrightarrow> upper_cp c = [if 97 \<le> c \<and> c \<le> 122 then c - 32 else c]"
  by (simp add: upper_cp_def upper_special_def upper_table_def)

lemma lower_from_ascii: "ascii s \<Longrightarrow> lower_from b s = concat (map lower_cp s)"
  by (induction s arbitrary: b) (simp_all add: ascii_def)

lemma lower_upper_cp: "c < 128 \<Longrightarrow> concat (map lower_cp (upper_cp c)) = lower_cp c"
proof -
  assume c: "c < 128"
  show ?thesis
  proof (cases "97 \<le> c \<and> c \<le> 122")
    case True
    define d where "d = c - 32"
    from True have d: "65 \<le> d" "d \<le> 90" "c = d + 32"
      unfolding d_def by arith+
    have u: "upper_cp c = [d]"
      using c True by (simp add: upper_cp_ascii d_def)
    have l: "lower_cp d = [c]"
      using d by (simp add: lower_cp_ascii)
    have "lower_cp c = [c]"
      using c True by (simp add: lower_cp_ascii)
    with u l show ?thesis by simp
  next
    case False
    with c have "upper_cp c = [c]" by (auto simp add: upper_cp_ascii)
    then show ?thesis by simp
  qed
qed

lemma upper_cp_ascii_range: "c < 128 \<Longrightarrow> list_all (\<lambda>c. c < 128) (upper_cp c)"
  by (simp add: upper_cp_ascii) arith

lemma ascii_upper: "ascii s \<Longrightarrow> ascii (str_upper s)"
  by (induction s) (simp_all add: ascii_def str_upper_def upper_cp_ascii_range)

lemma lower_upper_ascii: "ascii s \<Longrightarrow> str_lower (str_upper s) = str_lower s"
proof -
  assume a: "ascii s"
  have "str_lower (str_upper s) = concat (map lower_cp (str_upper s))"
    unfolding str_lower_def using ascii_upper [OF a] by (rule lower_from_ascii)
  also have "\<dots> = concat (map lower_cp s)"
    using a by (induction s) (simp_all add: str_upper_def ascii_def lower_upper_cp)
  also have "\<dots> = str_lower s"
    unfolding str_lower_def using a by (rule lower_from_ascii [symmetric])
  finally show ?thesis .
qed

lemmas lower_eval = str_lower_def lower_cp_def lower_special_def lower_table_def cps_def

lemmas int_eval = str_int_def str_nat.simps

text \<open>
  Some values of the case mappings beyond ASCII, among them the final and the non-final
  sigma, as the interpreter computes them.
\<close>

lemma str_lower_samples:
  "str_lower [304] = [105, 775] \<and> str_lower [8490] = [107] \<and> str_lower [256] = [257]
   \<and> str_lower [1040] = [1072] \<and> str_lower [223] = [223]
   \<and> str_lower [927, 916, 927, 931] = [959, 948, 959, 962]
   \<and> str_lower [931, 927] = [963, 959]"
  by (simp add: str_lower_def lower_cp_def lower_special_def lower_table_def final_sigma_def
      cased_def case_ignorable_def cased_ranges_def case_ignorable_ranges_def)

lemma str_upper_samples:
  "str_upper [223] = [83, 83] \<and> str_upper [181] = [924] \<and> str_upper [255] = [376]
   \<and> str_upper (cps ''btcusdt'') = cps ''BTCUSDT''"
  by (simp add: str_upper_def upper_cp_def upper_special_def upper_table_def cps_def)

lemmas method_defs =
  agg_trade_def mark_price_def kline_def continuous_kline_def mini_ticker_def ticker_def
  book_ticker_def liquidation_order_def partial_book_depth_def diff_book_depth_def
  composite_index_def user_data_def

lemma dispatch_single:
  "\<exists>names. dispatch self m =
     [LiveSubscribe names (id_of m) (callback_of m) (kwargs_of m)]"
  by (cases m) (simp_all add: method_defs split: option.split str_or_list.split)

lemma dispatch_self: "dispatch self m = dispatch self' m"
  by (cases m) (simp_all add: method_defs)

lemma lower_upper_ascii_list:
  "list_all ascii ss \<Longrightarrow> map (\<lambda>s. str_lower (str_upper s) @ t) ss = map (\<lambda>s. str_lower s @ t) ss"
  by (induction ss) (simp_all add: lower_upper_ascii)

subsection \<open>The engine's invariants\<close>

lemma registry_ok_map:
  assumes "registry_ok xs"
    and "\<And>s. sub_id (g s) = sub_id s"
    and "\<And>s. state s \<noteq> Removed \<Longrightarrow> state (g s) \<noteq> Removed"
  shows "registry_ok (map g xs)"
proof -
  have m: "map sub_id (map g xs) = map sub_id xs"
    by (simp add: assms(2))
  have d: "distinct (map sub_id (map g xs))"
    unfolding m using assms(1) by (simp add: registry_ok_def)
  have "list_all (\<lambda>s. state s \<noteq> Removed) (map g xs)"
    using assms(1,3) by (induction xs) (simp_all add: registry_ok_def)
  with d show ?thesis unfolding registry_ok_def by blast
qed

lemma registry_ok_filter: "registry_ok xs \<Longrightarrow> registry_ok (filter P xs)"
  by (induction xs) (auto simp add: registry_ok_def)

lemma registry_ok_snoc:
  assumes "registry_ok xs" and "\<not> list_ex (\<lambda>s. sub_id s = sub_id x \<and> state s \<noteq> Removed) xs"
    and "state x \<noteq> Removed"
  shows "registry_ok (xs @ [x])"
  using assms by (induction xs) (auto simp add: registry_ok_def)

lemma unmarked_map:
  "unmarked xs \<Longrightarrow> (\<And>s. \<not> replay_on_connect s \<Longrightarrow> \<not> replay_on_connect (g s))
     \<Longrightarrow> unmarked (map g xs)"
  by (induction xs) (simp_all add: unmarked_def)

lemma unmarked_filter: "unmarked xs \<Longrightarrow> unmarked (filter P xs)"
  by (induction xs) (simp_all add: unmarked_def)

lemma unmarked_clear: "unmarked (map (\<lambda>s. s\<lparr>replay_on_connect := False\<rparr>) xs)"
  by (induction xs) (simp_all add: unmarked_def)

lemma engine_inv_initial: "engine_inv (initial acks)"
  by (simp add: engine_inv_def initial_def registry_ok_def)

lemma engine_inv_add:
  assumes "engine_inv e" and "supervisor e \<noteq> Closing"
  shows "engine_inv (snd (add i sts cb e))"
proof (cases "present i e")
  case True
  then show ?thesis using assms(1) by (simp add: add_def)
next
  case False
  let ?x = "\<lparr>sub_id = i, streamNames = sts, callback = cb,
              state = (if ack_mode e then Pending else Active),
              replay_on_connect = (supervisor e \<noteq> Connected)\<rparr>"
  have ok: "registry_ok (registry e @ [?x])"
    using assms(1) False
    by (intro registry_ok_snoc) (simp_all add: engine_inv_def present_def)
  have um: "supervisor e = Connected \<Longrightarrow> unmarked (registry e @ [?x])"
    using assms(1) by (simp add: engine_inv_def unmarked_def)
  show ?thesis
    using False ok um assms(2)
    by (cases "ack_mode e"; cases "supervisor e = Connected")
      (simp_all add: add_def Let_def engine_inv_def)
qed

lemma engine_inv_remove:
  assumes "engine_inv e" and "supervisor e \<noteq> Closing"
  shows "engine_inv (snd (remove i e))"
proof -
  have ok: "registry_ok (registry e)" using assms(1) by (simp add: engine_inv_def)
  have f: "registry_ok (filter (\<lambda>s. sub_id s \<noteq> i) (registry e))"
    using ok by (rule registry_ok_filter)
  have m: "registry_ok
      (map (\<lambda>s. if sub_id s = i then s\<lparr>state := Unsubscribing\<rparr> else s) (registry e))"
    using ok by (rule registry_ok_map) simp_all
  have uf: "supervisor e = Connected \<Longrightarrow>
      unmarked (filter (\<lambda>s. sub_id s \<noteq> i) (registry e))"
    using assms(1) by (simp add: engine_inv_def unmarked_filter)
  have um: "supervisor e = Connected \<Longrightarrow> unmarked
      (map (\<lambda>s. if sub_id s = i then s\<lparr>state := Unsubscribing\<rparr> else s) (registry e))"
    using assms(1) by (intro unmarked_map) (simp_all add: engine_inv_def)
  show ?thesis
    using assms f m uf um by (simp add: remove_def Let_def engine_inv_def)
qed

lemma engine_inv_ack:
  assumes "engine_inv e"
  shows "engine_inv (ack i e)"
proof -
  have ok: "registry_ok (registry e)" using assms by (simp add: engine_inv_def)
  have f: "registry_ok
      (filter (\<lambda>s. \<not> (sub_id s = i \<and> state s = Unsubscribing)) (registry e))"
    using ok by (rule registry_ok_filter)
  have m: "registry_ok
      (map (\<lambda>s. if sub_id s = i \<and> state s = Pending then s\<lparr>state := Active\<rparr> else s)
         (registry e))"
    using ok by (rule registry_ok_map) simp_all
  have uf: "supervisor e = Connected \<Longrightarrow> unmarked
      (filter (\<lambda>s. \<not> (sub_id s = i \<and> state s = Unsubscribing)) (registry e))"
    using assms by (simp add: engine_inv_def unmarked_filter)
  have um: "supervisor e = Connected \<Longrightarrow> unmarked
      (map (\<lambda>s. if sub_id s = i \<and> state s = Pending then s\<lparr>state := Active\<rparr> else s)
         (registry e))"
    using assms by (intro unmarked_map) (simp_all add: engine_inv_def)
  have cl: "supervisor e = Closing \<Longrightarrow> registry e = []"
    using assms by (simp add: engine_inv_def)
  show ?thesis
    using assms f m uf um cl
    by (simp add: ack_def engine_inv_def split: option.split command_kind.split)
qed

lemma engine_inv_on_connected:
  assumes "engine_inv e" and "supervisor e = Connecting"
  shows "engine_inv (on_connected e)"
proof -
  have ok: "registry_ok (registry e)" using assms(1) by (simp add: engine_inv_def)
  have "registry_ok (map (\<lambda>s. s\<lparr>replay_on_connect := False\<rparr>) (registry e))"
    using ok by (rule registry_ok_map) simp_all
  then show ?thesis
    by (simp add: on_connected_def Let_def engine_inv_def unmarked_clear)
qed


lemma engine_inv_step: "engine_inv e \<Longrightarrow> engine_inv (step ev e)"
proof (cases ev)
  case (CallSubscribe sts i cb)
  then show "engine_inv e \<Longrightarrow> ?thesis"
    using engine_inv_add [of e i sts cb] by (simp add: subscribe_def)
next
  case (CallUnsubscribe i)
  then show "engine_inv e \<Longrightarrow> ?thesis"
    using engine_inv_remove [of e i] by (simp add: unsubscribe_def)
next
  case (AckReceived i)
  then show "engine_inv e \<Longrightarrow> ?thesis"
    using engine_inv_ack [of e i] by simp
next
  case ConnectSucceeded
  then show "engine_inv e \<Longrightarrow> ?thesis"
    using engine_inv_on_connected [of e] by simp
qed (simp_all add: engine_inv_def registry_ok_def)

lemma engine_inv_run: "engine_inv e \<Longrightarrow> engine_inv (run evs e)"
  by (induction evs arbitrary: e) (simp_all add: engine_inv_step)

subsection \<open>Outage and replay\<close>

lemma run_append: "run (a @ b) e = run b (run a e)"
  by (induction a arbitrary: e) simp_all

lemma run_failed_attempts:
  "supervisor e = Reconnecting \<Longrightarrow>
   run (concat (replicate n [RetryConnect, ConnectFailed])) e = e\<lparr>attempt := attempt e + n\<rparr>"
proof (induction n arbitrary: e)
  case 0
  then show ?case by simp
next
  case (Suc n)
  let ?e1 = "e\<lparr>supervisor := Reconnecting, attempt := attempt e + 1\<rparr>"
  have "run (concat (replicate (Suc n) [RetryConnect, ConnectFailed])) e =
        run (concat (replicate n [RetryConnect, ConnectFailed])) ?e1"
    using Suc.prems by simp
  also have "\<dots> = ?e1\<lparr>attempt := attempt ?e1 + n\<rparr>"
    by (rule Suc.IH) simp
  also have "\<dots> = e\<lparr>attempt := attempt e + Suc n\<rparr>"
    using Suc.prems by simp
  finally show ?case .
qed

lemma run_outage:
  assumes "supervisor e = Connected"
  shows "run (outage n) e = on_connected (awaiting_connect n e)"
proof -
  let ?e1 = "e\<lparr>supervisor := Reconnecting, wire := []\<rparr>"
  let ?fs = "concat (replicate n [RetryConnect, ConnectFailed]) :: 'a event list"
  have a: "run (outage n) e = run (?fs @ [RetryConnect, ConnectSucceeded]) ?e1"
    using assms by (simp add: outage_def)
  have b: "run ?fs ?e1 = ?e1\<lparr>attempt := attempt ?e1 + n\<rparr>"
    by (rule run_failed_attempts) simp
  have c: "run (outage n) e =
        run [RetryConnect, ConnectSucceeded] (?e1\<lparr>attempt := attempt ?e1 + n\<rparr>)"
    unfolding a run_append b ..
  have "?e1\<lparr>attempt := attempt ?e1 + n\<rparr> =
        (awaiting_connect n e)\<lparr>supervisor := Reconnecting\<rparr>"
    by (cases e) (simp add: awaiting_connect_def)
  then have "run (outage n) e =
        run [RetryConnect, ConnectSucceeded]
          ((awaiting_connect n e)\<lparr>supervisor := Reconnecting\<rparr>)"
    using c by simp
  also have "\<dots> = on_connected (awaiting_connect n e)"
    by (cases e) (simp add: awaiting_connect_def)
  finally show ?thesis .
qed

lemma no_deferred:
  "unmarked xs \<Longrightarrow> filter (\<lambda>s. state s = Pending \<and> replay_on_connect s) xs = []"
  by (induction xs) (simp_all add: unmarked_def)

lemma cmd_id_resubscribe: "map cmd_id (map resubscribe xs) = map sub_id xs"
  by (simp add: resubscribe_def)

lemma distinct_snapshot: "registry_ok (registry e) \<Longrightarrow> distinct (map sub_id (snapshot e))"
  unfolding snapshot_def registry_ok_def by (simp add: distinct_map_filter)

lemma server_view_resubscribe:
  "foldl server_apply S (map resubscribe xs) =
   S \<union> set (map (\<lambda>s. (sub_id s, streamNames s)) xs)"
  by (induction xs arbitrary: S) (simp_all add: resubscribe_def)

lemma snapshot_cleared:
  "map (\<lambda>s. (sub_id s, streamNames s))
     (filter (\<lambda>s. state s = Active) (map (\<lambda>s. s\<lparr>replay_on_connect := False\<rparr>) xs)) =
   map (\<lambda>s. (sub_id s, streamNames s)) (filter (\<lambda>s. state s = Active) xs)"
  by (induction xs) simp_all

lemma wire_step:
  assumes "supervisor e = Connected" and "keeps_connection ev"
  shows "supervisor (step ev e) = Connected \<and> (\<exists>r. wire (step ev e) = wire e @ r)"
  using assms
  by (cases ev)
    (simp_all add: subscribe_def unsubscribe_def add_def remove_def ack_def Let_def
      split: option.split command_kind.split)

lemma wire_run:
  "supervisor e = Connected \<Longrightarrow> list_all keeps_connection evs \<Longrightarrow>
   \<exists>r. wire (run evs e) = wire e @ r"
proof (induction evs arbitrary: e)
  case Nil
  then show ?case by simp
next
  case (Cons ev evs)
  from Cons.prems have k: "keeps_connection ev" and ks: "list_all keeps_connection evs"
    by simp_all
  from wire_step [OF Cons.prems(1) k] obtain r where
    c: "supervisor (step ev e) = Connected" and w: "wire (step ev e) = wire e @ r"
    by blast
  from Cons.IH [OF c ks] obtain r' where "wire (run evs (step ev e)) = wire (step ev e) @ r'"
    by blast
  then show ?case by (simp add: w)
qed

lemma engine_inv_reachable: "engine_inv (run evs (initial acks))"
  by (rule engine_inv_run) (rule engine_inv_initial)

lemma present_not_closing:
  assumes "engine_inv e" and "present i e"
  shows "supervisor e \<noteq> Closing"
proof
  assume "supervisor e = Closing"
  with assms(1) have "registry e = []" by (simp add: engine_inv_def)
  with assms(2) show False by (simp add: present_def)
qed

lemma subscribe_twice:
  assumes "fst (subscribe sts1 j cb1 e0) = None"
  shows "subscribe sts2 j cb2 (snd (subscribe sts1 j cb1 e0)) =
         (Some DuplicateSubscriptionId, snd (subscribe sts1 j cb1 e0))"
proof -
  from assms have nc: "supervisor e0 \<noteq> Closing"
    by (auto simp add: subscribe_def split: if_splits)
  from assms nc have np: "\<not> present j e0"
    by (auto simp add: subscribe_def add_def split: if_splits)
  let ?e1 = "snd (subscribe sts1 j cb1 e0)"
  have s: "supervisor ?e1 = supervisor e0"
    using nc np by (simp add: subscribe_def add_def Let_def)
  have p: "present j ?e1"
    using nc np by (simp add: subscribe_def add_def Let_def present_def)
  show ?thesis using s p nc by (simp add: subscribe_def add_def)
qed

section \<open>Stream names\<close>

text \<open>
  C3: for every symbol, id and callback, \<open>agg_trade\<close> makes one call of \<open>live_subscribe\<close>,
  with the stream name \<open>lower(symbol) + "@aggTrade"\<close>, the id and the callback; for the
  symbol \<open>btcusdt\<close> and id 1 the stream is \<open>btcusdt@aggTrade\<close>, and so it is for
  \<open>BTCUSDT\<close>; with the Kelvin sign U+212A for the \<open>k\<close> of \<open>kusdt\<close> the stream is
  \<open>kusdt@aggTrade\<close>.
\<close>

theorem agg_trade_stream:
  "agg_trade self s i cb kw =
     [LiveSubscribe (OneStr (str_lower s @ cps ''@aggTrade'')) i cb kw]
   \<and> agg_trade self (cps ''btcusdt'') 1 cb kw =
     [LiveSubscribe (OneStr (cps ''btcusdt@aggTrade'')) 1 cb kw]
   \<and> agg_trade self (cps ''BTCUSDT'') 1 cb kw =
     [LiveSubscribe (OneStr (cps ''btcusdt@aggTrade'')) 1 cb kw]
   \<and> agg_trade self (8490 # cps ''usdt'') 2 cb kw =
     [LiveSubscribe (OneStr (cps ''kusdt@aggTrade'')) 2 cb kw]"
proof -
  have a: "agg_trade self s i cb kw =
     [LiveSubscribe (OneStr (str_lower s @ cps ''@aggTrade'')) i cb kw]"
    by (simp add: agg_trade_def)
  have b: "str_lower (cps ''btcusdt'') = cps ''btcusdt''"
    by (simp add: lower_eval)
  have c: "str_lower (cps ''BTCUSDT'') = cps ''btcusdt''"
    by (simp add: lower_eval)
  have d: "str_lower (8490 # cps ''usdt'') = cps ''kusdt''"
    by (simp add: lower_eval)
  show ?thesis
    unfolding agg_trade_def b c d by (simp add: cps_def)
qed

text \<open>
  C1: called with a list of symbols, \<open>partial_book_depth\<close> makes one call of
  \<open>live_subscribe\<close> with the list of the names
  \<open>lower(s) + "@depth" + level + "@" + speed + "ms"\<close>, in the order of the symbols;
  called with one symbol, it passes that one name as a string; id, callback and keyword
  arguments are passed on as they are. The third conjunct is the call of the example script;
  the last two are calls with symbols in capitals, in mixed case and with the Cyrillic
  letter U+0410, at other levels and speeds.
\<close>

theorem partial_book_depth_streams:
  "partial_book_depth self (StrList ss) i level speed cb kw =
     [LiveSubscribe
        (StrList (map (\<lambda>s. str_lower s @ cps ''@depth'' @ str_int level @ cps ''@''
                              @ str_int speed @ cps ''ms'') ss))
        i cb kw]
   \<and> partial_book_depth self (OneStr s) i level speed cb kw =
     [LiveSubscribe
        (OneStr (str_lower s @ cps ''@depth'' @ str_int level @ cps ''@''
                   @ str_int speed @ cps ''ms''))
        i cb kw]
   \<and> partial_book_depth self
        (StrList [cps ''bnbusdt'', cps ''btcusdt'', cps ''ethusdt'']) 1 10 100
        message_handler NoKwargs =
     [LiveSubscribe
        (StrList [cps ''bnbusdt@depth10@100ms'', cps ''btcusdt@depth10@100ms'',
                  cps ''ethusdt@depth10@100ms''])
        1 message_handler NoKwargs]
   \<and> partial_book_depth self (StrList [cps ''BTCUSDT'', cps ''EthUsdt'', [1040]]) 7 5 250
        cb kw =
     [LiveSubscribe
        (StrList [cps ''btcusdt@depth5@250ms'', cps ''ethusdt@depth5@250ms'',
                  1072 # cps ''@depth5@250ms''])
        7 cb kw]
   \<and> partial_book_depth self (OneStr (cps ''BNBUSDT'')) 2 20 500 cb kw =
     [LiveSubscribe (OneStr (cps ''bnbusdt@depth20@500ms'')) 2 cb kw]"
proof -
  have l: "str_lower (cps ''bnbusdt'') = cps ''bnbusdt''"
    "str_lower (cps ''btcusdt'') = cps ''btcusdt''"
    "str_lower (cps ''ethusdt'') = cps ''ethusdt''"
    "str_lower (cps ''BTCUSDT'') = cps ''btcusdt''"
    "str_lower (cps ''EthUsdt'') = cps ''ethusdt''"
    "str_lower [1040] = [1072]"
    "str_lower (cps ''BNBUSDT'') = cps ''bnbusdt''"
    by (simp_all add: lower_eval)
  have n: "str_int 10 = cps ''10''" "str_int 100 = cps ''100''" "str_int 5 = cps ''5''"
    "str_int 250 = cps ''250''" "str_int 20 = cps ''20''" "str_int 500 = cps ''500''"
    by (simp_all add: int_eval cps_def)
  show ?thesis
    unfolding partial_book_depth_def by (simp add: l n) (simp add: cps_def)
qed

text \<open>
  C10: \<open>mark_price\<close> subscribes to \<open>lower(symbol) + "@markPrice@" + speed + "s"\<close>, and
  for no speed is that the name \<open>lower(symbol) + "@markPrice"\<close> without a suffix. The
  calls of the last four conjuncts have the speeds 1, 3, 1000 and -25, and symbols in
  capitals and with the letter U+0100.
\<close>

theorem mark_price_stream:
  "mark_price self s i v cb kw =
     [LiveSubscribe (OneStr (str_lower s @ cps ''@markPrice@'' @ str_int v @ cps ''s''))
        i cb kw]
   \<and> mark_price self s i v cb kw \<noteq>
     [LiveSubscribe (OneStr (str_lower s @ cps ''@markPrice'')) i cb kw]
   \<and> mark_price self (cps ''BTCUSDT'') 1 1 cb kw =
     [LiveSubscribe (OneStr (cps ''btcusdt@markPrice@1s'')) 1 cb kw]
   \<and> mark_price self (cps ''btcusdt'') 1 3 cb kw =
     [LiveSubscribe (OneStr (cps ''btcusdt@markPrice@3s'')) 1 cb kw]
   \<and> mark_price self (256 # cps ''USDT'') 7 1000 cb kw =
     [LiveSubscribe (OneStr (257 # cps ''usdt@markPrice@1000s'')) 7 cb kw]
   \<and> mark_price self (cps ''ethusdt'') 4 (- 25) cb kw =
     [LiveSubscribe (OneStr (cps ''ethusdt@markPrice@-25s'')) 4 cb kw]"
proof -
  have a: "mark_price self s i v cb kw \<noteq>
     [LiveSubscribe (OneStr (str_lower s @ cps ''@markPrice'')) i cb kw]"
    by (simp add: mark_price_def cps_def)
  have l: "str_lower (cps ''BTCUSDT'') = cps ''btcusdt''"
    "str_lower (cps ''btcusdt'') = cps ''btcusdt''"
    "str_lower (256 # cps ''USDT'') = 257 # cps ''usdt''"
    "str_lower (cps ''ethusdt'') = cps ''ethusdt''"
    by (simp_all add: lower_eval)
  have n: "str_int 1 = cps ''1''" "str_int 3 = cps ''3''" "str_int 1000 = cps ''1000''"
    "str_int (- 25) = cps ''-25''"
    by (simp_all add: int_eval cps_def)
  have b: "mark_price self (cps ''BTCUSDT'') 1 1 cb kw =
     [LiveSubscribe (OneStr (cps ''btcusdt@markPrice@1s'')) 1 cb kw]"
    "mark_price self (cps ''btcusdt'') 1 3 cb kw =
     [LiveSubscribe (OneStr (cps ''btcusdt@markPrice@3s'')) 1 cb kw]"
    "mark_price self (256 # cps ''USDT'') 7 1000 cb kw =
     [LiveSubscribe (OneStr (257 # cps ''usdt@markPrice@1000s'')) 7 cb kw]"
    "mark_price self (cps ''ethusdt'') 4 (- 25) cb kw =
     [LiveSubscribe (OneStr (cps ''ethusdt@markPrice@-25s'')) 4 cb kw]"
    unfolding mark_price_def l n by (simp_all add: cps_def)
  from a b show ?thesis by (simp add: mark_price_def)
qed

text \<open>
  C8: \<open>mini_ticker\<close>, \<open>ticker\<close>, \<open>book_ticker\<close> and \<open>liquidation_order\<close> subscribe to
  the all-market stream when \<open>symbol\<close> is \<open>None\<close> and to the stream of the lowercased
  symbol otherwise, by one call of \<open>live_subscribe\<close> in either branch. The last five
  conjuncts are calls with symbols in capitals and in mixed case, and with U+0130, whose
  lowercase is two code points.
\<close>

theorem all_market_or_symbol:
  "mini_ticker self i cb None kw =
     [LiveSubscribe (OneStr (cps ''!miniTicker@arr'')) i cb kw]
   \<and> ticker self i cb None kw = [LiveSubscribe (OneStr (cps ''!ticker@arr'')) i cb kw]
   \<and> book_ticker self i cb None kw = [LiveSubscribe (OneStr (cps ''!bookTicker'')) i cb kw]
   \<and> liquidation_order self i cb None kw =
     [LiveSubscribe (OneStr (cps ''!forceOrder@arr'')) i cb kw]
   \<and> mini_ticker self i cb (Some s) kw =
     [LiveSubscribe (OneStr (str_lower s @ cps ''@miniTicker'')) i cb kw]
   \<and> ticker self i cb (Some s) kw =
     [LiveSubscribe (OneStr (str_lower s @ cps ''@ticker'')) i cb kw]
   \<and> book_ticker self i cb (Some s) kw =
     [LiveSubscribe (OneStr (str_lower s @ cps ''@bookTicker'')) i cb kw]
   \<and> liquidation_order self i cb (Some s) kw =
     [LiveSubscribe (OneStr (str_lower s @ cps ''@forceOrder'')) i cb kw]
   \<and> mini_ticker self i cb (Some (cps ''BTCUSDT'')) kw =
     [LiveSubscribe (OneStr (cps ''btcusdt@miniTicker'')) i cb kw]
   \<and> ticker self i cb (Some (cps ''BnbUsdt'')) kw =
     [LiveSubscribe (OneStr (cps ''bnbusdt@ticker'')) i cb kw]
   \<and> book_ticker self i cb (Some (cps ''ETHUSDT'')) kw =
     [LiveSubscribe (OneStr (cps ''ethusdt@bookTicker'')) i cb kw]
   \<and> liquidation_order self i cb (Some (cps ''BTCUSDT'')) kw =
     [LiveSubscribe (OneStr (cps ''btcusdt@forceOrder'')) i cb kw]
   \<and> mini_ticker self i cb (Some [304]) kw =
     [LiveSubscribe (OneStr (105 # 775 # cps ''@miniTicker'')) i cb kw]"
proof -
  have l: "str_lower (cps ''BTCUSDT'') = cps ''btcusdt''"
    "str_lower (cps ''BnbUsdt'') = cps ''bnbusdt''"
    "str_lower (cps ''ETHUSDT'') = cps ''ethusdt''"
    "str_lower [304] = [105, 775]"
    by (simp_all add: lower_eval)
  show ?thesis
    unfolding mini_ticker_def ticker_def book_ticker_def liquidation_order_def
    by (simp add: l) (simp add: cps_def)
qed

section \<open>Construction\<close>

text \<open>
  C6: the constructor makes one call, of the parent's constructor, with
  \<open>wss://fstream.binance.com\<close> when no \<open>stream_url\<close> is given and with the given URL
  otherwise.
\<close>

theorem init_stream_url:
  "(init None :: ('cb, 'kw) call list) = [SuperInit (cps ''wss://fstream.binance.com'')]
   \<and> (init (Some u) :: ('cb, 'kw) call list) = [SuperInit u]"
  by (simp add: init_def default_stream_url_def)

section \<open>Frame and pass-through\<close>

text \<open>
  C2: a convenience method does not depend on the client it is called on; it makes exactly
  one call of \<open>live_subscribe\<close>, with the id, callback and keyword arguments it was given,
  and what it does to the client is what that one call does.
\<close>

theorem convenience_methods_stateless:
  "dispatch self m = dispatch self' m
   \<and> (\<exists>names.
         dispatch self m = [LiveSubscribe names (id_of m) (callback_of m) (kwargs_of m)]
         \<and> effect parent self (dispatch self m) =
             parent self (LiveSubscribe names (id_of m) (callback_of m) (kwargs_of m)))"
proof -
  obtain names where
    d: "dispatch self m = [LiveSubscribe names (id_of m) (callback_of m) (kwargs_of m)]"
    using dispatch_single [of self m] by blast
  have "effect parent self (dispatch self m) =
        parent self (LiveSubscribe names (id_of m) (callback_of m) (kwargs_of m))"
    by (simp add: d effect_def)
  with d dispatch_self [of self m self'] show ?thesis by blast
qed

text \<open>
  C7: the callback handed to \<open>live_subscribe\<close> is the caller's callback itself, for every
  convenience method; in the example script it is \<open>message_handler\<close>.
\<close>

theorem callback_unchanged:
  "callbacks_passed (dispatch self m) = [callback_of m]
   \<and> callbacks_passed
        (partial_book_depth self
           (StrList [cps ''bnbusdt'', cps ''btcusdt'', cps ''ethusdt'']) 1 10 100
           message_handler NoKwargs) = [message_handler]"
proof -
  obtain names where
    d: "dispatch self m = [LiveSubscribe names (id_of m) (callback_of m) (kwargs_of m)]"
    using dispatch_single [of self m] by blast
  show ?thesis by (simp add: d partial_book_depth_def)
qed

section \<open>Letter case\<close>

text \<open>
  C9, as amended: for an ASCII symbol (or pair) \<open>s\<close>, every convenience method that takes
  one computes the same call for \<open>upper(s)\<close> as for \<open>s\<close>; \<open>continuous_kline\<close> embeds
  \<open>contractType\<close> and \<open>interval\<close> as they are and \<open>user_data\<close> passes the listen key as it
  is, so their calls change with the letter case of those arguments.
\<close>

theorem symbol_case_invariance:
  assumes "ascii s" and "list_all ascii ss"
  shows "agg_trade self (str_upper s) i cb kw = agg_trade self s i cb kw
    \<and> mark_price self (str_upper s) i v cb kw = mark_price self s i v cb kw
    \<and> kline self (str_upper s) i iv cb kw = kline self s i iv cb kw
    \<and> continuous_kline self (str_upper s) i ct iv cb kw = continuous_kline self s i ct iv cb kw
    \<and> mini_ticker self i cb (Some (str_upper s)) kw = mini_ticker self i cb (Some s) kw
    \<and> ticker self i cb (Some (str_upper s)) kw = ticker self i cb (Some s) kw
    \<and> book_ticker self i cb (Some (str_upper s)) kw = book_ticker self i cb (Some s) kw
    \<and> liquidation_order self i cb (Some (str_upper s)) kw =
        liquidation_order self i cb (Some s) kw
    \<and> partial_book_depth self (OneStr (str_upper s)) i l v cb kw =
        partial_book_depth self (OneStr s) i l v cb kw
    \<and> partial_book_depth self (StrList (map str_upper ss)) i l v cb kw =
        partial_book_depth self (StrList ss) i l v cb kw
    \<and> diff_book_depth self (str_upper s) i w cb kw = diff_book_depth self s i w cb kw
    \<and> composite_index self (str_upper s) i cb kw = composite_index self s i cb kw
    \<and> continuous_kline self s i ct iv cb kw =
        [LiveSubscribe
           (OneStr (str_lower s @ cps ''_'' @ ct @ cps ''@continuousKline_'' @ iv)) i cb kw]
    \<and> user_data self k i cb kw = [LiveSubscribe (OneStr k) i cb kw]
    \<and> continuous_kline self s i (str_upper (cps ''perpetual'')) iv cb kw \<noteq>
        continuous_kline self s i (cps ''perpetual'') iv cb kw
    \<and> continuous_kline self s i ct (str_upper (cps ''1m'')) cb kw \<noteq>
        continuous_kline self s i ct (cps ''1m'') cb kw
    \<and> user_data self (str_upper (cps ''abc'')) i cb kw \<noteq> user_data self (cps ''abc'') i cb kw"
proof -
  note lu = lower_upper_ascii [OF assms(1)]
  have a: "agg_trade self (str_upper s) i cb kw = agg_trade self s i cb kw"
    by (simp add: agg_trade_def lu)
  have b: "mark_price self (str_upper s) i v cb kw = mark_price self s i v cb kw"
    by (simp add: mark_price_def lu)
  have c: "kline self (str_upper s) i iv cb kw = kline self s i iv cb kw"
    by (simp add: kline_def lu)
  have d: "continuous_kline self (str_upper s) i ct iv cb kw =
           continuous_kline self s i ct iv cb kw"
    by (simp add: continuous_kline_def lu)
  have e: "mini_ticker self i cb (Some (str_upper s)) kw = mini_ticker self i cb (Some s) kw"
    by (simp add: mini_ticker_def lu)
  have f: "ticker self i cb (Some (str_upper s)) kw = ticker self i cb (Some s) kw"
    by (simp add: ticker_def lu)
  have g: "book_ticker self i cb (Some (str_upper s)) kw = book_ticker self i cb (Some s) kw"
    by (simp add: book_ticker_def lu)
  have h: "liquidation_order self i cb (Some (str_upper s)) kw =
           liquidation_order self i cb (Some s) kw"
    by (simp add: liquidation_order_def lu)
  have j: "partial_book_depth self (OneStr (str_upper s)) i l v cb kw =
           partial_book_depth self (OneStr s) i l v cb kw"
    by (simp add: partial_book_depth_def lu)
  have k: "partial_book_depth self (StrList (map str_upper ss)) i l v cb kw =
           partial_book_depth self (StrList ss) i l v cb kw"
    using lower_upper_ascii_list [OF assms(2)]
    by (simp add: partial_book_depth_def comp_def)
  have m: "diff_book_depth self (str_upper s) i w cb kw = diff_book_depth self s i w cb kw"
    by (simp add: diff_book_depth_def lu)
  have n: "composite_index self (str_upper s) i cb kw = composite_index self s i cb kw"
    by (simp add: composite_index_def lu)
  have p: "continuous_kline self s i ct iv cb kw =
        [LiveSubscribe
           (OneStr (str_lower s @ cps ''_'' @ ct @ cps ''@continuousKline_'' @ iv)) i cb kw]"
    by (simp add: continuous_kline_def)
  have q: "user_data self k i cb kw = [LiveSubscribe (OneStr k) i cb kw]"
    by (simp add: user_data_def)
  have r: "continuous_kline self s i (str_upper (cps ''perpetual'')) iv cb kw \<noteq>
        continuous_kline self s i (cps ''perpetual'') iv cb kw"
    by (simp add: continuous_kline_def str_upper_def upper_cp_def upper_special_def
        upper_table_def cps_def)
  have t: "continuous_kline self s i ct (str_upper (cps ''1m'')) cb kw \<noteq>
        continuous_kline self s i ct (cps ''1m'') cb kw"
    by (simp add: continuous_kline_def str_upper_def upper_cp_def upper_special_def
        upper_table_def cps_def)
  have u: "user_data self (str_upper (cps ''abc'')) i cb kw \<noteq>
           user_data self (cps ''abc'') i cb kw"
    by (simp add: user_data_def str_upper_def upper_cp_def upper_special_def upper_table_def
        cps_def)
  from a b c d e f g h j k m n p q r t u show ?thesis by blast
qed

text \<open>The hypotheses of the theorem hold for the symbols of the example script.\<close>

theorem symbol_case_invariance_witness:
  "ascii (cps ''btcusdt'') \<and> list_all ascii [cps ''bnbusdt'', cps ''ethusdt'']
   \<and> agg_trade () (str_upper (cps ''btcusdt'')) 1 message_handler NoKwargs =
       agg_trade () (cps ''btcusdt'') 1 message_handler NoKwargs
   \<and> partial_book_depth ()
         (StrList (map str_upper [cps ''bnbusdt'', cps ''ethusdt''])) 1 10 100
         message_handler NoKwargs =
       partial_book_depth () (StrList [cps ''bnbusdt'', cps ''ethusdt'']) 1 10 100
         message_handler NoKwargs"
proof -
  have h1: "ascii (cps ''btcusdt'')"
    by (simp add: ascii_def cps_def)
  have h2: "list_all ascii [cps ''bnbusdt'', cps ''ethusdt'']"
    by (simp add: ascii_def cps_def)
  from symbol_case_invariance [OF h1 h2, where self = "()" and i = 1
      and cb = message_handler and kw = NoKwargs and l = 10 and v = 100]
  show ?thesis using h1 h2 by blast
qed

text \<open>
  C9 as stated fails beyond ASCII: \<open>upper\<close> of the one-letter string U+00DF is \<open>SS\<close>, whose
  lowercase is \<open>ss\<close>, while the lowercase of U+00DF is itself.
\<close>

theorem symbol_case_counterexample:
  "agg_trade () (str_upper [223]) 1 message_handler NoKwargs \<noteq>
   agg_trade () [223] 1 message_handler NoKwargs"
  by (simp add: agg_trade_def str_upper_def str_lower_def upper_cp_def lower_cp_def
      upper_special_def upper_table_def lower_special_def lower_table_def)


section \<open>The engine: duplicate ids and replay\<close>

text \<open>
  C5: in any state the engine reaches, a \<open>subscribe\<close> whose id is present in the registry
  and not \<open>Removed\<close> returns \<open>DuplicateSubscriptionId\<close> and leaves the state as it was; and
  when a \<open>subscribe\<close> with some id has succeeded, a second one with the same id, made before
  anything else happens, returns \<open>DuplicateSubscriptionId\<close>.
\<close>

theorem duplicate_subscription_id:
  assumes "present i (run evs (initial acks))"
  shows "subscribe sts i cb (run evs (initial acks)) =
           (Some DuplicateSubscriptionId, run evs (initial acks))
    \<and> (fst (subscribe sts1 j cb1 e0) = None \<longrightarrow>
         subscribe sts2 j cb2 (snd (subscribe sts1 j cb1 e0)) =
           (Some DuplicateSubscriptionId, snd (subscribe sts1 j cb1 e0)))"
proof -
  have "supervisor (run evs (initial acks)) \<noteq> Closing"
    using engine_inv_reachable assms by (rule present_not_closing)
  with assms have "subscribe sts i cb (run evs (initial acks)) =
           (Some DuplicateSubscriptionId, run evs (initial acks))"
    by (simp add: subscribe_def add_def)
  with subscribe_twice [of sts1 j cb1 e0 sts2 cb2] show ?thesis by blast
qed

text \<open>The example of the specification: \<open>subscribe(id=1, ...)\<close> twice on a connected client.\<close>

theorem duplicate_subscription_id_witness:
  "present 1
     (run [Start, ConnectSucceeded,
           CallSubscribe [cps ''btcusdt@aggTrade''] 1 message_handler] (initial True))
   \<and> fst (subscribe [cps ''btcusdt@aggTrade''] 1 message_handler
            (run [Start, ConnectSucceeded] (initial True))) = None
   \<and> fst (subscribe [cps ''btcusdt@aggTrade''] 1 message_handler
        (run [Start, ConnectSucceeded,
              CallSubscribe [cps ''btcusdt@aggTrade''] 1 message_handler] (initial True))) =
       Some DuplicateSubscriptionId
   \<and> fst (subscribe [cps ''ethusdt@aggTrade''] 1 message_handler
        (snd (subscribe [cps ''btcusdt@aggTrade''] 1 message_handler
               (run [Start, ConnectSucceeded] (initial True))))) =
       Some DuplicateSubscriptionId"
proof -
  have p: "present 1
     (run [Start, ConnectSucceeded,
           CallSubscribe [cps ''btcusdt@aggTrade''] 1 message_handler] (initial True))"
    by (simp add: present_def initial_def on_connected_def snapshot_def subscribe_def
        add_def Let_def)
  have f: "fst (subscribe [cps ''btcusdt@aggTrade''] 1 message_handler
            (run [Start, ConnectSucceeded] (initial True))) = None"
    by (simp add: present_def initial_def on_connected_def snapshot_def subscribe_def
        add_def Let_def)
  from duplicate_subscription_id [OF p, where sts = "[cps ''btcusdt@aggTrade'']"
      and cb = message_handler and ?sts1.0 = "[cps ''btcusdt@aggTrade'']" and j = 1
      and ?cb1.0 = message_handler and ?e0.0 = "run [Start, ConnectSucceeded] (initial True)"
      and ?sts2.0 = "[cps ''ethusdt@aggTrade'']" and ?cb2.0 = message_handler]
  show ?thesis using p f by simp
qed

text \<open>
  C4: let the engine be connected, in any state it can reach, and let the connection drop
  and come back after \<open>n\<close> failed attempts, with no caller action in between. Then the
  engine is connected with its attempt counter at 0; what has been sent on the new
  connection is one Subscribe command for each subscription that was \<open>Active\<close> before the
  drop, with its id and streams, in the registry's order; no two of these commands have the
  same id; the server's view of the connection is the registry's active set; and whatever
  happens later while the connection stays up is sent after the replay.
\<close>

theorem replay_after_reconnect:
  fixes evs later :: "'cb event list" and acks :: bool and n :: nat
  assumes "supervisor (run evs (initial acks)) = Connected"
    and "list_all keeps_connection later"
  defines "e \<equiv> run evs (initial acks)"
  defines "e' \<equiv> run (outage n) e"
  shows "supervisor e' = Connected \<and> attempt e' = 0
    \<and> wire e' = map resubscribe (snapshot e)
    \<and> distinct (map cmd_id (wire e'))
    \<and> server_view (wire e') = active_set e'
    \<and> (\<exists>rest. wire (run later e') = wire e' @ rest)"
proof -
  have i: "engine_inv e" unfolding e_def by (rule engine_inv_reachable)
  have c: "supervisor e = Connected" unfolding e_def by (rule assms(1))
  have ok: "registry_ok (registry e)" using i by (simp add: engine_inv_def)
  have um: "unmarked (registry e)" using i c by (simp add: engine_inv_def)
  have e': "e' = on_connected (awaiting_connect n e)"
    unfolding e'_def using c by (rule run_outage)
  have r: "registry (awaiting_connect n e) = registry e"
    by (simp add: awaiting_connect_def)
  have s: "snapshot (awaiting_connect n e) = snapshot e"
    by (simp add: snapshot_def r)
  have c': "supervisor e' = Connected" and a': "attempt e' = 0"
    by (simp_all add: e' on_connected_def Let_def)
  have w: "wire e' = map resubscribe (snapshot e)"
    by (simp add: e' on_connected_def Let_def s r no_deferred [OF um])
  have d: "distinct (map cmd_id (wire e'))"
    unfolding w cmd_id_resubscribe using ok by (rule distinct_snapshot)
  have "registry e' = map (\<lambda>s. s\<lparr>replay_on_connect := False\<rparr>) (registry e)"
    by (simp add: e' on_connected_def Let_def r)
  then have "active_set e' = set (map (\<lambda>s. (sub_id s, streamNames s)) (snapshot e))"
    by (simp only: active_set_def snapshot_def snapshot_cleared)
  moreover have "server_view (wire e') = set (map (\<lambda>s. (sub_id s, streamNames s)) (snapshot e))"
    unfolding w server_view_def server_view_resubscribe by simp
  ultimately have v: "server_view (wire e') = active_set e'" by simp
  have l: "\<exists>rest. wire (run later e') = wire e' @ rest"
    using c' assms(2) by (rule wire_run)
  from c' a' w d v l show ?thesis by blast
qed


text \<open>
  The example of the specification: \<open>subscribe(id=1, streams=["btcusdt@aggTrade"], cb)\<close>,
  acknowledged; the connection is interrupted and comes back at the third attempt; the
  replay sends \<open>SUBSCRIBE id=1 params=[btcusdt@aggTrade]\<close>.
\<close>

theorem replay_after_reconnect_witness:
  "supervisor
     (run [Start, ConnectSucceeded,
           CallSubscribe [cps ''btcusdt@aggTrade''] 1 message_handler, AckReceived 1]
        (initial True)) = Connected
   \<and> list_all keeps_connection [CallSubscribe [cps ''ethusdt@aggTrade''] 2 message_handler]
   \<and> wire
       (run (outage 2)
          (run [Start, ConnectSucceeded,
                CallSubscribe [cps ''btcusdt@aggTrade''] 1 message_handler, AckReceived 1]
             (initial True))) =
       [\<lparr>cmd_id = 1, kind = Subscribe, streams = [cps ''btcusdt@aggTrade'']\<rparr>]"
proof -
  let ?e = "run [Start, ConnectSucceeded,
           CallSubscribe [cps ''btcusdt@aggTrade''] 1 (message_handler), AckReceived 1]
        (initial True)"
  have c: "supervisor ?e = Connected"
    by (simp add: initial_def on_connected_def snapshot_def subscribe_def add_def
        present_def ack_def Let_def)
  have k: "list_all keeps_connection
             [CallSubscribe [cps ''ethusdt@aggTrade''] 2 message_handler]"
    by simp
  have s: "map resubscribe (snapshot ?e) =
           [\<lparr>cmd_id = 1, kind = Subscribe, streams = [cps ''btcusdt@aggTrade'']\<rparr>]"
    by (simp add: initial_def on_connected_def snapshot_def subscribe_def add_def
        present_def ack_def Let_def resubscribe_def)
  from replay_after_reconnect [OF c k, of 2] s c k show ?thesis by simp
qed

end
